theory Spec2Isabelle
  imports Main "HOL-Library.AList" "HOL-Library.Sublist"
begin

section \<open>The train command of allennlp (allennlp/commands/train.py)\<close>

text \<open>
  The module is orchestration code: every function is a sequence of calls to
  collaborators (the configuration object, the vocabulary, the model, the trainer,
  torch's process spawner and process group, the archiver) with a little control flow
  between them. The embedding keeps that shape. A function of the module becomes a
  computation that returns the list of collaborator calls it made, in the order it
  made them, together with either the exception that ended it or its return value.
  What a collaborator answers is a parameter of the model (the record
  \<open>externals\<close>, and the constructor functions of the \<open>Lazy\<close> arguments), so every
  theorem holds for all collaborators.

  Not modelled: calls to the \<open>logging\<close> module, floating point configuration values,
  and a \<open>KeyboardInterrupt\<close> delivered between two statements of the module itself
  (an interrupt is an answer of a collaborator call, which is where the time is spent).
\<close>

subsection \<open>Python values and exceptions\<close>

text \<open>The JSON-like values a configuration holds.\<close>

datatype pyval =
    PNone
  | PBool bool
  | PInt int
  | PStr string
  | PList "pyval list"
  | PDict "(string \<times> pyval) list"

datatype error =
    ConfigurationError string
  | KeyboardInterrupt
  | TypeError
  | AttributeError
  | KeyError
  | IndexError
  | ValueError
  | ExternalError string

text \<open>
  Modelled from the spec: the class \<open>allennlp.common.Params\<close> is not part of this
  module; it is the "configuration tree" the module threads through, a wrapper around a
  Python dictionary. It is modelled as the dictionary it wraps, an association list in
  insertion order; \<open>params.duplicate()\<close> is a deep copy and so the same value.
\<close>

type_synonym Params = "(string \<times> pyval) list"

type_synonym metrics = "(string \<times> pyval) list"

subsection \<open>The collaborators' objects\<close>

text \<open>
  Objects of classes defined elsewhere are identified by a number; the attributes this
  module reads are fields.
\<close>

datatype Instance = Instance nat

datatype DatasetReader = DatasetReader nat

datatype DataIterator = DataIterator nat

record Vocabulary =
  vocab_id :: nat
  padding_token :: string
  oov_token :: string

record Model =
  model_id :: nat
  vocab :: Vocabulary

record TrainerBase =
  trainer_id :: nat
  cuda_device :: pyval

text \<open>The class \<open>TrainModel\<close>, with the attributes its constructor sets.\<close>

record TrainModel =
  serialization_dir :: string
  model :: Model
  trainer :: TrainerBase
  evaluation_dataset :: "Instance list option"
  evaluation_iterator :: DataIterator
  evaluate_on_test :: bool
  batch_weight_key :: string

text \<open>
  \<open>Lazy[T]\<close> wraps a constructor that is called with the missing dependencies by
  \<open>construct\<close>. The vocabulary's constructor receives a generator: next to its result
  it tells how many instances it took from it.
\<close>

type_synonym Lazy_Vocabulary = "Instance list \<Rightarrow> error + (nat \<times> Vocabulary option)"

type_synonym Lazy_Model = "Vocabulary \<Rightarrow> error + Model"

type_synonym Lazy_TrainerBase =
  "Model \<Rightarrow> DataIterator \<Rightarrow> Instance list \<Rightarrow> DataIterator \<Rightarrow> Instance list option
    \<Rightarrow> error + TrainerBase"

text \<open>
  The keyword arguments the registry resolves from the configuration for the
  constructor registered as \<open>"default"\<close>, \<open>from_partial_objects\<close>.
\<close>

record partial_objects =
  po_dataset_reader :: DatasetReader
  po_train_data_path :: string
  po_model :: Lazy_Model
  po_iterator :: DataIterator
  po_trainer :: Lazy_TrainerBase
  po_vocabulary :: "Lazy_Vocabulary option"
  po_datasets_for_vocab_creation :: "string list option"
  po_validation_dataset_reader :: "DatasetReader option"
  po_validation_data_path :: "string option"
  po_validation_iterator :: "DataIterator option"
  po_test_data_path :: "string option"
  po_evaluate_on_test :: bool

subsection \<open>Calls to collaborators\<close>

text \<open>
  One constructor per call site kind, with the arguments of the call. \<open>InWorker i e\<close> is
  the call \<open>e\<close> made by the process that \<open>mp.spawn\<close> started with index \<open>i\<close>.
\<close>

datatype event =
    Call_Params_from_file string string
  | Call_create_serialization_dir Params string bool bool
  | Call_Params_to_file Params string
  | Call_check_for_gpu pyval
  | Call_make_vocab_from_params Params string
  | Call_Params_setitem "string list" pyval
  | Call_mp_spawn nat
  | InWorker nat event
  | Call_archive_model string
  | Call_Model_load Params string
  | Call_prepare_global_logging string bool int pyval
  | Call_prepare_environment Params
  | Call_import_submodules string
  | Call_environ_setitem string nat
  | Call_cuda_set_device int
  | Call_init_process_group string pyval pyval pyval int
  | Call_dist_barrier
  | Call_TrainModel_from_params Params string int string
  | Call_read_all_datasets string DatasetReader "DatasetReader option" "string option"
      "string option"
  | Call_Lazy_vocabulary_construct "Instance list"
  | Call_Vocabulary_from_instances "Instance list"
  | Call_Lazy_model_construct Vocabulary
  | Call_Vocabulary_save_to_files Vocabulary string
  | Call_index_with DataIterator Vocabulary
  | Call_Lazy_trainer_construct Model DataIterator "Instance list" DataIterator
      "Instance list option"
  | Call_trainer_train TrainerBase
  | Call_evaluate Model "Instance list" DataIterator pyval string
  | Call_dump_metrics string metrics

text \<open>
  What the collaborators answer. \<open>raises\<close> says, for a call that returns nothing,
  whether it raises; the other fields are the functions that return a value. The two
  imported constants \<open>CONFIG_NAME\<close> and \<open>_DEFAULT_WEIGHTS\<close> are parameters too, and so
  is the parsing of a string by the builtin \<open>int\<close>. \<open>mp_spawn_join\<close> is what
  \<open>mp.spawn\<close> raises in the parent, given how each worker ended.
\<close>

record externals =
  CONFIG_NAME :: string
  DEFAULT_WEIGHTS :: string
  raises :: "event \<Rightarrow> error option"
  Params_from_file :: "string \<Rightarrow> string \<Rightarrow> error + Params"
  make_vocab_from_params :: "Params \<Rightarrow> string \<Rightarrow> error + Vocabulary"
  Model_load :: "Params \<Rightarrow> string \<Rightarrow> error + Model"
  mp_spawn_join :: "(error + Model option) list \<Rightarrow> error option"
  prepare_environment :: "Params \<Rightarrow> error + Params"
  int_of_str :: "string \<Rightarrow> int option"
  TrainModel_from_params :: "Params \<Rightarrow> string \<Rightarrow> int \<Rightarrow> string \<Rightarrow> error + partial_objects"
  read_all_datasets :: "string \<Rightarrow> DatasetReader \<Rightarrow> DatasetReader option \<Rightarrow> string option
    \<Rightarrow> string option \<Rightarrow> error + (string \<times> Instance list) list"
  Vocabulary_from_instances :: "Instance list \<Rightarrow> error + Vocabulary"
  is_master :: bool
  os_path_exists :: "string \<Rightarrow> bool"
  trainer_train :: "TrainerBase \<Rightarrow> error + metrics"
  evaluate :: "Model \<Rightarrow> Instance list \<Rightarrow> DataIterator \<Rightarrow> pyval \<Rightarrow> string \<Rightarrow> error + metrics"

subsection \<open>Computations: the calls made, and an exception or a value\<close>

type_synonym 'a comp = "event list \<times> (error + 'a)"

definition ret :: "'a \<Rightarrow> 'a comp" where
  "ret x = ([], Inr x)"

definition raise :: "error \<Rightarrow> 'a comp" where
  "raise e = ([], Inl e)"

definition lift :: "error + 'a \<Rightarrow> 'a comp" where
  "lift r = ([], r)"

definition bind :: "'a comp \<Rightarrow> ('a \<Rightarrow> 'b comp) \<Rightarrow> 'b comp" where
  "bind m f =
     (case m of
        (l, Inl e) \<Rightarrow> (l, Inl e)
      | (l, Inr x) \<Rightarrow> (case f x of (l', r) \<Rightarrow> (l @ l', r)))"

definition call :: "event \<Rightarrow> error + 'a \<Rightarrow> 'a comp" where
  "call ev r = ([ev], r)"

definition call_unit :: "externals \<Rightarrow> event \<Rightarrow> unit comp" where
  "call_unit ext ev = call ev (case raises ext ev of None \<Rightarrow> Inr () | Some e \<Rightarrow> Inl e)"

definition effect :: "event \<Rightarrow> unit comp" where
  "effect ev = ([ev], Inr ())"

text \<open>
  \<open>try: body except KeyboardInterrupt: handler\<close>. The handler of this module ends
  with a bare \<open>raise\<close>, which is part of the handler passed here.
\<close>

definition try_except_KeyboardInterrupt :: "'a comp \<Rightarrow> 'a comp \<Rightarrow> 'a comp" where
  "try_except_KeyboardInterrupt body handler =
     (case body of
        (l, Inl KeyboardInterrupt) \<Rightarrow> (case handler of (l', r) \<Rightarrow> (l @ l', r))
      | _ \<Rightarrow> body)"

subsection \<open>The Python operations the module applies to configuration values\<close>

text \<open>\<open>d.pop(key, default)\<close> on a dictionary: the value and the dictionary without the key.\<close>

definition dict_pop ::
  "(string \<times> pyval) list \<Rightarrow> string \<Rightarrow> pyval \<Rightarrow> pyval \<times> (string \<times> pyval) list" where
  "dict_pop d key dflt =
     (case map_of d key of
        None \<Rightarrow> (dflt, d)
      | Some v \<Rightarrow> (v, AList.delete key d))"

text \<open>
  \<open>v.pop(key, default)\<close> on any value: only a dictionary has this method; a list has
  a \<open>pop\<close> of at most one argument.
\<close>

fun py_pop :: "pyval \<Rightarrow> string \<Rightarrow> pyval \<Rightarrow> error + (pyval \<times> pyval)" where
  "py_pop (PDict d) key dflt =
     (case dict_pop d key dflt of (v, d') \<Rightarrow> Inr (v, PDict d'))"
| "py_pop (PList xs) key dflt = Inl TypeError"
| "py_pop v key dflt = Inl AttributeError"

text \<open>\<open>len(v)\<close>.\<close>

fun py_len :: "pyval \<Rightarrow> error + nat" where
  "py_len (PList xs) = Inr (length xs)"
| "py_len (PStr s) = Inr (length s)"
| "py_len (PDict d) = Inr (length (remdups (map fst d)))"
| "py_len v = Inl TypeError"

text \<open>\<open>v > n\<close> for an integer \<open>n\<close>; a bool is the integer 0 or 1.\<close>

fun py_gt :: "pyval \<Rightarrow> int \<Rightarrow> error + bool" where
  "py_gt (PInt k) n = Inr (k > n)"
| "py_gt (PBool b) n = Inr ((if b then 1 else 0) > n)"
| "py_gt v n = Inl TypeError"

text \<open>\<open>v * n\<close> for the length \<open>n\<close> of a container: sequences are repeated.\<close>

fun py_mul :: "pyval \<Rightarrow> nat \<Rightarrow> error + pyval" where
  "py_mul (PInt k) n = Inr (PInt (k * int n))"
| "py_mul (PBool b) n = Inr (PInt ((if b then 1 else 0) * int n))"
| "py_mul (PStr s) n = Inr (PStr (concat (replicate n s)))"
| "py_mul (PList xs) n = Inr (PList (concat (replicate n xs)))"
| "py_mul v n = Inl TypeError"

text \<open>\<open>v[i]\<close> for an integer \<open>i\<close>; a negative index counts from the end.\<close>

definition seq_index :: "'a list \<Rightarrow> int \<Rightarrow> error + 'a" where
  "seq_index xs i =
     (if 0 \<le> i \<and> i < int (length xs) then Inr (xs ! nat i)
      else if i < 0 \<and> - int (length xs) \<le> i then Inr (xs ! nat (int (length xs) + i))
      else Inl IndexError)"

fun py_getitem :: "pyval \<Rightarrow> int \<Rightarrow> error + pyval" where
  "py_getitem (PList xs) i = seq_index xs i"
| "py_getitem (PStr s) i = (case seq_index s i of Inl e \<Rightarrow> Inl e | Inr c \<Rightarrow> Inr (PStr [c]))"
| "py_getitem (PDict d) i = Inl KeyError"
| "py_getitem v i = Inl TypeError"

text \<open>\<open>int(v)\<close>.\<close>

fun py_int :: "externals \<Rightarrow> pyval \<Rightarrow> error + int" where
  "py_int ext (PInt k) = Inr k"
| "py_int ext (PBool b) = Inr (if b then 1 else 0)"
| "py_int ext (PStr s) = (case int_of_str ext s of None \<Rightarrow> Inl ValueError | Some k \<Rightarrow> Inr k)"
| "py_int ext v = Inl TypeError"

text \<open>\<open>isinstance(v, list) and len(v) > 1\<close>.\<close>

fun is_list_longer_than_1 :: "pyval \<Rightarrow> bool" where
  "is_list_longer_than_1 (PList xs) = (length xs > 1)"
| "is_list_longer_than_1 v = False"

text \<open>\<open>os.path.join(a, b)\<close> of \<open>posixpath\<close>.\<close>

definition os_path_join :: "string \<Rightarrow> string \<Rightarrow> string" where
  "os_path_join a b =
     (if b \<noteq> [] \<and> hd b = CHR ''/'' then b
      else if a = [] \<or> last a = CHR ''/'' then a @ b
      else a @ ''/'' @ b)"

text \<open>\<open>d[key]\<close> on a dictionary.\<close>

definition dict_getitem :: "(string \<times> 'a) list \<Rightarrow> string \<Rightarrow> error + 'a" where
  "dict_getitem d key = (case map_of d key of None \<Rightarrow> Inl KeyError | Some v \<Rightarrow> Inr v)"

text \<open>
  \<open>params["trainer"][key] = value\<close>: \<open>Params.__getitem__\<close> raises \<open>KeyError\<close> for a
  missing key and hands out the dictionary stored under it, which the assignment
  updates in place; a stored value of another type does not take a string key.
\<close>

definition params_trainer_setitem :: "Params \<Rightarrow> string \<Rightarrow> pyval \<Rightarrow> Params comp" where
  "params_trainer_setitem params key v =
     (case map_of params ''trainer'' of
        None \<Rightarrow> raise KeyError
      | Some (PDict d) \<Rightarrow>
          bind (effect (Call_Params_setitem [''trainer'', key] v)) (\<lambda>_.
          ret (AList.update ''trainer'' (PDict (AList.update key v d)) params))
      | Some _ \<Rightarrow> raise TypeError)"

subsection \<open>class TrainModel\<close>

text \<open>\<open>TrainModel.run\<close>.\<close>

definition run :: "externals \<Rightarrow> TrainModel \<Rightarrow> metrics comp" where
  "run ext self = call (Call_trainer_train (trainer self)) (trainer_train ext (trainer self))"

text \<open>
  \<open>TrainModel.finish\<close>. A dataset is a list of instances, true when it is not empty;
  \<open>metrics["test_" + key] = value\<close> keeps the position of a key that is already
  there and appends a new one.
\<close>

definition truthy :: "'a list option \<Rightarrow> bool" where
  "truthy x = (case x of None \<Rightarrow> False | Some xs \<Rightarrow> xs \<noteq> [])"

definition finish :: "externals \<Rightarrow> TrainModel \<Rightarrow> metrics \<Rightarrow> unit comp" where
  "finish ext self metrics =
     bind (if truthy (evaluation_dataset self) \<and> evaluate_on_test self then
             bind (call (Call_evaluate (model self) (the (evaluation_dataset self))
                          (evaluation_iterator self) (cuda_device (trainer self))
                          (batch_weight_key self))
                        (evaluate ext (model self) (the (evaluation_dataset self))
                          (evaluation_iterator self) (cuda_device (trainer self))
                          (batch_weight_key self))) (\<lambda>test_metrics.
             ret (foldl (\<lambda>m (key, value). AList.update (''test_'' @ key) value m)
                    metrics test_metrics))
           else ret metrics) (\<lambda>metrics.
     call_unit ext
       (Call_dump_metrics (os_path_join (serialization_dir self) ''metrics.json'') metrics))"

text \<open>
  The loop of \<open>from_partial_objects\<close> over \<open>datasets_for_vocab_creation\<close>: the first
  key that is not a key of \<open>datasets\<close> raises.
\<close>

fun check_datasets_for_vocab_creation :: "string list \<Rightarrow> (string \<times> 'a) list \<Rightarrow> unit comp" where
  "check_datasets_for_vocab_creation [] datasets = ret ()"
| "check_datasets_for_vocab_creation (key # keys) datasets =
     (if key \<notin> fst ` set datasets then
        raise (ConfigurationError
          (''invalid '' @ [CHR 0x27] @ ''dataset_for_vocab_creation'' @ [CHR 0x27] @ '' '' @ key))
      else check_datasets_for_vocab_creation keys datasets)"

text \<open>
  The generator expression \<open>instance_generator\<close>, as the list of instances it yields:
  the datasets in the order of the dictionary, each kept when
  \<open>datasets_for_vocab_creation\<close> is empty or absent, or names it.
\<close>

definition instance_generator ::
  "(string \<times> Instance list) list \<Rightarrow> string list option \<Rightarrow> Instance list" where
  "instance_generator datasets datasets_for_vocab_creation =
     concat (map snd (filter
       (\<lambda>(key, dataset). \<not> truthy datasets_for_vocab_creation
           \<or> key \<in> set (the datasets_for_vocab_creation))
       datasets))"

text \<open>
  \<open>TrainModel.from_partial_objects\<close>. \<open>vocabulary\<close> defaults to \<open>None\<close>, which has no
  \<open>construct\<close>. When the constructed vocabulary is \<open>None\<close>, \<open>Vocabulary.from_instances\<close>
  receives the same generator, that is, the instances not yet taken from it. An
  argument whose name is a field of \<open>TrainModel\<close> carries a prime here; the locals
  \<open>vocabulary_\<close>, \<open>model_\<close> and \<open>trainer_\<close> are \<open>vocabulary_c\<close>, \<open>model_c\<close> and
  \<open>trainer_c\<close>.
\<close>

definition from_partial_objects ::
  "externals \<Rightarrow> string \<Rightarrow> int \<Rightarrow> string \<Rightarrow> DatasetReader \<Rightarrow> string \<Rightarrow> Lazy_Model
    \<Rightarrow> DataIterator \<Rightarrow> Lazy_TrainerBase \<Rightarrow> Lazy_Vocabulary option \<Rightarrow> string list option
    \<Rightarrow> DatasetReader option \<Rightarrow> string option \<Rightarrow> DataIterator option \<Rightarrow> string option
    \<Rightarrow> bool \<Rightarrow> TrainModel comp" where
  "from_partial_objects ext serialization_dir' local_rank batch_weight_key'
     dataset_reader train_data_path model' iterator trainer' vocabulary
     datasets_for_vocab_creation validation_dataset_reader validation_data_path
     validation_iterator test_data_path evaluate_on_test' =
     bind (call (Call_read_all_datasets train_data_path dataset_reader
                   validation_dataset_reader validation_data_path test_data_path)
                (read_all_datasets ext train_data_path dataset_reader
                   validation_dataset_reader validation_data_path test_data_path))
       (\<lambda>datasets.
     bind (if truthy datasets_for_vocab_creation then
             check_datasets_for_vocab_creation (the datasets_for_vocab_creation) datasets
           else ret ()) (\<lambda>_.
     let instances = instance_generator datasets datasets_for_vocab_creation in
     bind (case vocabulary of
             None \<Rightarrow> raise AttributeError
           | Some construct \<Rightarrow>
               call (Call_Lazy_vocabulary_construct instances) (construct instances))
       (\<lambda>(taken, vocabulary_c).
     bind (case vocabulary_c of
             Some v \<Rightarrow> ret v
           | None \<Rightarrow>
               call (Call_Vocabulary_from_instances (drop taken instances))
                    (Vocabulary_from_instances ext (drop taken instances)))
       (\<lambda>vocabulary_c.
     bind (call (Call_Lazy_model_construct vocabulary_c) (model' vocabulary_c)) (\<lambda>model_c.
     bind (if is_master ext then
             call_unit ext (Call_Vocabulary_save_to_files vocabulary_c
               (os_path_join serialization_dir' ''vocabulary''))
           else ret ()) (\<lambda>_.
     bind (call_unit ext (Call_index_with iterator (vocab model_c))) (\<lambda>_.
     let validation_iterator =
           (case validation_iterator of None \<Rightarrow> iterator | Some it \<Rightarrow> it) in
     bind (call_unit ext (Call_index_with validation_iterator (vocab model_c))) (\<lambda>_.
     bind (lift (dict_getitem datasets ''train'')) (\<lambda>train_data.
     bind (call (Call_Lazy_trainer_construct model_c iterator train_data validation_iterator
                   (map_of datasets ''validation''))
                (trainer' model_c iterator train_data validation_iterator
                   (map_of datasets ''validation''))) (\<lambda>trainer_c.
     ret \<lparr>serialization_dir = serialization_dir',
          model = model_c,
          trainer = trainer_c,
          evaluation_dataset = map_of datasets ''test'',
          evaluation_iterator = validation_iterator,
          evaluate_on_test = evaluate_on_test',
          batch_weight_key = batch_weight_key'\<rparr>))))))))))"

text \<open>
  \<open>TrainModel.from_params\<close>, inherited from the registry: it resolves the keyword
  arguments from the configuration (a collaborator's work) and calls the constructor
  that the last line of the module registers as \<open>"default"\<close>,
  \<open>from_partial_objects\<close>.
\<close>

definition from_params :: "externals \<Rightarrow> Params \<Rightarrow> string \<Rightarrow> int \<Rightarrow> string \<Rightarrow> TrainModel comp" where
  "from_params ext params serialization_dir' local_rank batch_weight_key' =
     bind (call (Call_TrainModel_from_params params serialization_dir' local_rank
                   batch_weight_key')
                (TrainModel_from_params ext params serialization_dir' local_rank
                   batch_weight_key')) (\<lambda>po.
     from_partial_objects ext serialization_dir' local_rank batch_weight_key'
       (po_dataset_reader po) (po_train_data_path po) (po_model po) (po_iterator po)
       (po_trainer po) (po_vocabulary po) (po_datasets_for_vocab_creation po)
       (po_validation_dataset_reader po) (po_validation_data_path po)
       (po_validation_iterator po) (po_test_data_path po) (po_evaluate_on_test po))"

subsection \<open>The worker\<close>

text \<open>The loop over \<open>include_package\<close>.\<close>

fun import_packages :: "externals \<Rightarrow> string list \<Rightarrow> unit comp" where
  "import_packages ext [] = ret ()"
| "import_packages ext (package_name # rest) =
     bind (call_unit ext (Call_import_submodules package_name)) (\<lambda>_.
     import_packages ext rest)"

text \<open>
  The body of \<open>if distributed:\<close> in \<open>_train_worker\<close>; it returns the configuration
  with the three keys of \<open>params["trainer"]\<close> set.
\<close>

definition distributed_setup ::
  "externals \<Rightarrow> int \<Rightarrow> Params \<Rightarrow> string list option \<Rightarrow> int \<Rightarrow> pyval \<Rightarrow> pyval \<Rightarrow> pyval
    \<Rightarrow> pyval \<Rightarrow> Params comp" where
  "distributed_setup ext process_rank params include_package node_rank master_addr
     master_port world_size distributed_device_ids =
     bind (case include_package of
             None \<Rightarrow> ret ()
           | Some packages \<Rightarrow> import_packages ext packages) (\<lambda>_.
     bind (lift (py_len distributed_device_ids)) (\<lambda>num_procs_per_node.
     let global_rank = node_rank * int num_procs_per_node + process_rank in
     bind (effect (Call_environ_setitem ''ALLENNLP_PROCS_PER_NODE'' num_procs_per_node)) (\<lambda>_.
     bind (lift (py_getitem distributed_device_ids process_rank)) (\<lambda>gpu_id.
     bind (params_trainer_setitem params ''cuda_device'' gpu_id) (\<lambda>params.
     bind (params_trainer_setitem params ''world_size'' world_size) (\<lambda>params.
     bind (params_trainer_setitem params ''distributed'' (PBool True)) (\<lambda>params.
     bind (lift (py_int ext gpu_id)) (\<lambda>device.
     bind (call_unit ext (Call_cuda_set_device device)) (\<lambda>_.
     bind (call_unit ext (Call_init_process_group ''nccl'' master_addr master_port world_size
             global_rank)) (\<lambda>_.
     ret params))))))))))"

text \<open>
  \<open>_train_worker\<close> (a name cannot start with an underscore here). The arguments
  \<open>model\<close>, \<open>extend_vocab\<close> and \<open>embedding_sources_mapping\<close> are accepted and never
  used, as in the source. \<open>prepare_environment\<close> takes keys out of the configuration
  it is given; the model continues with the configuration it leaves.
\<close>

definition train_worker ::
  "externals \<Rightarrow> int \<Rightarrow> Params \<Rightarrow> string \<Rightarrow> bool \<Rightarrow> bool \<Rightarrow> string list option \<Rightarrow> string
    \<Rightarrow> int \<Rightarrow> pyval \<Rightarrow> pyval \<Rightarrow> pyval \<Rightarrow> pyval \<Rightarrow> Model option \<Rightarrow> bool
    \<Rightarrow> (string \<times> string) list option \<Rightarrow> Model option comp" where
  "train_worker ext process_rank params serialization_dir' file_friendly_logging recover
     include_package batch_weight_key' node_rank master_addr master_port world_size
     distributed_device_ids model' extend_vocab embedding_sources_mapping =
     bind (call_unit ext (Call_prepare_global_logging serialization_dir'
             file_friendly_logging process_rank world_size)) (\<lambda>_.
     bind (call (Call_prepare_environment params) (prepare_environment ext params))
       (\<lambda>params.
     bind (lift (py_gt world_size 1)) (\<lambda>distributed.
     let master = (process_rank = 0) in
     bind (if distributed then
             distributed_setup ext process_rank params include_package node_rank
               master_addr master_port world_size distributed_device_ids
           else ret params) (\<lambda>params.
     bind (from_params ext params serialization_dir' process_rank batch_weight_key')
       (\<lambda>train_loop.
     bind (try_except_KeyboardInterrupt
             (bind (if distributed then call_unit ext Call_dist_barrier else ret ()) (\<lambda>_.
              run ext train_loop))
             (bind (if master \<and> os_path_exists ext
                         (os_path_join serialization_dir' (DEFAULT_WEIGHTS ext)) then
                      call_unit ext (Call_archive_model serialization_dir')
                    else ret ()) (\<lambda>_.
              raise KeyboardInterrupt))) (\<lambda>metrics.
     bind (if master then finish ext train_loop metrics else ret ()) (\<lambda>_.
     if \<not> distributed then ret (Some (model train_loop)) else ret None)))))))"

subsection \<open>Starting the training\<close>

text \<open>
  \<open>mp.spawn(fn, args, nprocs)\<close> of torch starts \<open>nprocs\<close> processes, the one with
  index \<open>i\<close> running \<open>fn(i, *args)\<close>, and waits for all of them. The processes run at
  the same time; the calls of each are listed after the call of \<open>mp.spawn\<close>, worker by
  worker, so only the order of the calls of one worker, and their place after the call
  that started them and before the next call of the parent, mean something. Each
  process has collaborators of its own, \<open>wext i\<close>.
\<close>

definition mp_spawn :: "externals \<Rightarrow> (nat \<Rightarrow> Model option comp) \<Rightarrow> nat \<Rightarrow> unit comp" where
  "mp_spawn ext fn nprocs =
     (let runs = map fn [0..<nprocs] in
      (Call_mp_spawn nprocs #
         concat (map (\<lambda>i. map (InWorker i) (fst (runs ! i))) [0..<nprocs]),
       case mp_spawn_join ext (map snd runs) of None \<Rightarrow> Inr () | Some e \<Rightarrow> Inl e))"

text \<open>
  \<open>train_model\<close>. In the single process case \<open>_train_worker\<close> is called with its
  defaults for \<open>node_rank\<close>, \<open>master_addr\<close>, \<open>master_port\<close>, \<open>world_size\<close> and
  \<open>distributed_device_ids\<close>, and what it returns is returned as it is.
\<close>

definition train_model ::
  "externals \<Rightarrow> (nat \<Rightarrow> externals) \<Rightarrow> Params \<Rightarrow> string \<Rightarrow> bool \<Rightarrow> bool \<Rightarrow> bool \<Rightarrow> int
    \<Rightarrow> string list option \<Rightarrow> string \<Rightarrow> Model option \<Rightarrow> bool
    \<Rightarrow> (string \<times> string) list option \<Rightarrow> Model option comp" where
  "train_model ext wext params serialization_dir' file_friendly_logging recover force
     node_rank include_package batch_weight_key' model' extend_vocab
     embedding_sources_mapping =
     bind (call_unit ext (Call_create_serialization_dir params serialization_dir' recover
             force)) (\<lambda>_.
     bind (call_unit ext (Call_Params_to_file params
             (os_path_join serialization_dir' (CONFIG_NAME ext)))) (\<lambda>_.
     case dict_pop params ''distributed'' PNone of (distributed_params, params) \<Rightarrow>
     if distributed_params = PNone then
       bind (train_worker ext 0 params serialization_dir' file_friendly_logging recover
               include_package batch_weight_key' 0 (PStr ''127.0.0.1'') (PInt 29500) (PInt 1)
               PNone model' extend_vocab embedding_sources_mapping) (\<lambda>model'.
       bind (call_unit ext (Call_archive_model serialization_dir')) (\<lambda>_.
       ret model'))
     else
       bind (lift (py_pop distributed_params ''cuda_devices'' PNone))
         (\<lambda>(device_ids, distributed_params).
       let multi_device = is_list_longer_than_1 device_ids in
       bind (lift (py_pop distributed_params ''num_nodes'' (PInt 1)))
         (\<lambda>(num_nodes, distributed_params).
       bind (if multi_device then ret True else lift (py_gt num_nodes 1))
         (\<lambda>multi_device_or_nodes.
       if \<not> multi_device_or_nodes then
         raise (ConfigurationError
           ''Multiple cuda devices/nodes need to be configured to run distributed training.'')
       else
       bind (call_unit ext (Call_check_for_gpu device_ids)) (\<lambda>_.
       bind (lift (py_pop distributed_params ''master_address'' (PStr ''127.0.0.1'')))
         (\<lambda>(master_addr, distributed_params).
       bind (lift (py_pop distributed_params ''master_port'' (PInt 29500)))
         (\<lambda>(master_port, distributed_params).
       bind (lift (py_len device_ids)) (\<lambda>num_procs.
       bind (lift (py_mul num_nodes num_procs)) (\<lambda>world_size.
       bind (call (Call_make_vocab_from_params params serialization_dir')
                  (make_vocab_from_params ext params serialization_dir')) (\<lambda>vocab'.
       let params = AList.update ''vocabulary''
             (PDict [(''type'', PStr ''from_files''),
                     (''directory'', PStr (os_path_join serialization_dir' ''vocabulary'')),
                     (''padding_token'', PStr (padding_token vocab')),
                     (''oov_token'', PStr (oov_token vocab'))])
             params in
       bind (mp_spawn ext
               (\<lambda>i. train_worker (wext i) (int i) params serialization_dir'
                      file_friendly_logging recover include_package batch_weight_key'
                      node_rank master_addr master_port world_size device_ids model'
                      extend_vocab embedding_sources_mapping)
               num_procs) (\<lambda>_.
       bind (call_unit ext (Call_archive_model serialization_dir')) (\<lambda>_.
       bind (call (Call_Model_load params serialization_dir')
                  (Model_load ext params serialization_dir')) (\<lambda>loaded.
       ret (Some loaded)))))))))))))))"

text \<open>\<open>train_model_from_file\<close>.\<close>

definition train_model_from_file ::
  "externals \<Rightarrow> (nat \<Rightarrow> externals) \<Rightarrow> string \<Rightarrow> string \<Rightarrow> string \<Rightarrow> bool \<Rightarrow> bool \<Rightarrow> bool
    \<Rightarrow> int \<Rightarrow> string list option \<Rightarrow> Model option comp" where
  "train_model_from_file ext wext parameter_filename serialization_dir' overrides
     file_friendly_logging recover force node_rank include_package =
     bind (call (Call_Params_from_file parameter_filename overrides)
                (Params_from_file ext parameter_filename overrides)) (\<lambda>params.
     train_model ext wext params serialization_dir' file_friendly_logging recover force
       node_rank include_package [] None False None)"

subsection \<open>Notions used by the statements\<close>

text \<open>
  The dependency a call of \<open>from_partial_objects\<close> works on: the data, the vocabulary,
  the model, the bookkeeping between model and trainer (saving the vocabulary, indexing
  the iterators), the trainer.
\<close>

datatype construction_stage =
    Read_data
  | Build_vocabulary
  | Construct_model
  | Save_and_index
  | Construct_trainer
  | Other_call

fun stage_of :: "event \<Rightarrow> construction_stage" where
  "stage_of (Call_read_all_datasets tp dr vdr vdp tdp) = Read_data"
| "stage_of (Call_Lazy_vocabulary_construct insts) = Build_vocabulary"
| "stage_of (Call_Vocabulary_from_instances insts) = Build_vocabulary"
| "stage_of (Call_Lazy_model_construct v) = Construct_model"
| "stage_of (Call_Vocabulary_save_to_files v path) = Save_and_index"
| "stage_of (Call_index_with it v) = Save_and_index"
| "stage_of (Call_Lazy_trainer_construct m it td vit vd) = Construct_trainer"
| "stage_of ev = Other_call"

text \<open>
  The sequences of stages of a complete call: the vocabulary takes one call or two
  (\<open>Vocabulary.from_instances\<close> after a \<open>construct\<close> that gave \<open>None\<close>), the
  bookkeeping two or three (the vocabulary is saved by the master only).
\<close>

definition construction_orders :: "construction_stage list list" where
  "construction_orders =
     [[Read_data, Build_vocabulary, Construct_model,
       Save_and_index, Save_and_index, Save_and_index, Construct_trainer],
      [Read_data, Build_vocabulary, Construct_model,
       Save_and_index, Save_and_index, Construct_trainer],
      [Read_data, Build_vocabulary, Build_vocabulary, Construct_model,
       Save_and_index, Save_and_index, Save_and_index, Construct_trainer],
      [Read_data, Build_vocabulary, Build_vocabulary, Construct_model,
       Save_and_index, Save_and_index, Construct_trainer]]"

text \<open>
  The calls that prepare a run: loading the configuration, creating the serialization
  directory and writing the configuration to it. Every other call belongs to a worker,
  to the construction of the objects, to the trainer or to the archiver.
\<close>

fun preparation_call :: "event \<Rightarrow> bool" where
  "preparation_call (Call_Params_from_file parameter_filename overrides) = True"
| "preparation_call (Call_create_serialization_dir params dir recover force) = True"
| "preparation_call (Call_Params_to_file params path) = True"
| "preparation_call ev = False"

subsection \<open>A run in which every collaborator returns\<close>

text \<open>
  Concrete collaborators, for evaluating the module on concrete inputs: a registry
  that resolves every configuration to the same objects, two datasets, a vocabulary
  entry that is absent (so that \<open>construct\<close> gives \<open>None\<close>), and no call that raises.
\<close>

definition demo_vocabulary :: Vocabulary where
  "demo_vocabulary = \<lparr>vocab_id = 0, padding_token = ''@@PADDING@@'', oov_token = ''@@UNKNOWN@@''\<rparr>"

definition demo_trainer :: TrainerBase where
  "demo_trainer = \<lparr>trainer_id = 0, cuda_device = PInt (- 1)\<rparr>"

definition demo_datasets :: "(string \<times> Instance list) list" where
  "demo_datasets = [(''train'', [Instance 0, Instance 1]), (''validation'', [Instance 2])]"

definition demo_objects :: partial_objects where
  "demo_objects =
     \<lparr>po_dataset_reader = DatasetReader 0,
      po_train_data_path = ''train.txt'',
      po_model = (\<lambda>v. Inr \<lparr>model_id = 0, vocab = v\<rparr>),
      po_iterator = DataIterator 0,
      po_trainer = (\<lambda>m it td vit vd. Inr demo_trainer),
      po_vocabulary = Some (\<lambda>insts. Inr (0, None)),
      po_datasets_for_vocab_creation = None,
      po_validation_dataset_reader = None,
      po_validation_data_path = Some ''dev.txt'',
      po_validation_iterator = None,
      po_test_data_path = None,
      po_evaluate_on_test = False\<rparr>"

definition demo_externals :: externals where
  "demo_externals =
     \<lparr>CONFIG_NAME = ''config.json'',
      DEFAULT_WEIGHTS = ''best.th'',
      raises = (\<lambda>ev. None),
      Params_from_file = (\<lambda>parameter_filename overrides. Inr [(''trainer'', PDict [])]),
      make_vocab_from_params = (\<lambda>params dir. Inr demo_vocabulary),
      Model_load = (\<lambda>params dir. Inr \<lparr>model_id = 1, vocab = demo_vocabulary\<rparr>),
      mp_spawn_join = (\<lambda>results.
        if list_all (\<lambda>r. case r of Inl e \<Rightarrow> False | Inr x \<Rightarrow> True) results then None
        else Some (ExternalError ''a worker failed'')),
      prepare_environment = (\<lambda>params. Inr params),
      int_of_str = (\<lambda>s. None),
      TrainModel_from_params = (\<lambda>params dir local_rank key. Inr demo_objects),
      read_all_datasets = (\<lambda>tp dr vdr vdp tdp. Inr demo_datasets),
      Vocabulary_from_instances = (\<lambda>insts. Inr demo_vocabulary),
      is_master = True,
      os_path_exists = (\<lambda>path. False),
      trainer_train = (\<lambda>t. Inr [(''best_epoch'', PInt 0)]),
      evaluate = (\<lambda>m data it device key. Inr [])\<rparr>"

definition demo_model :: Model where
  "demo_model = \<lparr>model_id = 0, vocab = demo_vocabulary\<rparr>"

definition demo_train_loop :: TrainModel where
  "demo_train_loop =
     \<lparr>serialization_dir = ''out'', model = demo_model, trainer = demo_trainer,
      evaluation_dataset = None, evaluation_iterator = DataIterator 0,
      evaluate_on_test = False, batch_weight_key = []\<rparr>"

text \<open>The calls \<open>from_partial_objects\<close> makes with these collaborators.\<close>

definition demo_construction :: "event list" where
  "demo_construction =
     [Call_read_all_datasets ''train.txt'' (DatasetReader 0) None (Some ''dev.txt'') None,
      Call_Lazy_vocabulary_construct [Instance 0, Instance 1, Instance 2],
      Call_Vocabulary_from_instances [Instance 0, Instance 1, Instance 2],
      Call_Lazy_model_construct demo_vocabulary,
      Call_Vocabulary_save_to_files demo_vocabulary ''out/vocabulary'',
      Call_index_with (DataIterator 0) demo_vocabulary,
      Call_index_with (DataIterator 0) demo_vocabulary,
      Call_Lazy_trainer_construct demo_model (DataIterator 0) [Instance 0, Instance 1]
        (DataIterator 0) (Some [Instance 2])]"

text \<open>
  The same collaborators, with a training that is interrupted after the weights of an
  epoch were saved; and the same again, with an archiver that fails.
\<close>

definition demo_interrupted :: externals where
  "demo_interrupted =
     demo_externals\<lparr>trainer_train := (\<lambda>t. Inl KeyboardInterrupt),
                    os_path_exists := (\<lambda>path. True)\<rparr>"

definition demo_archive_fails :: externals where
  "demo_archive_fails =
     demo_interrupted\<lparr>raises := (\<lambda>ev.
        if ev = Call_archive_model ''out'' then Some (ExternalError ''No space left on device'')
        else None)\<rparr>"

text \<open>
  A configuration for two devices on one node, and the configuration its workers
  receive.
\<close>

definition demo_distributed_params :: Params where
  "demo_distributed_params =
     [(''distributed'', PDict [(''cuda_devices'', PList [PInt 0, PInt 1])]),
      (''trainer'', PDict [])]"

definition demo_worker_params :: Params where
  "demo_worker_params =
     [(''trainer'', PDict []),
      (''vocabulary'',
       PDict [(''type'', PStr ''from_files''),
              (''directory'', PStr ''out/vocabulary''),
              (''padding_token'', PStr ''@@PADDING@@''),
              (''oov_token'', PStr ''@@UNKNOWN@@'')])]"

text \<open>The calls of the worker with index \<open>i\<close> of that configuration.\<close>

definition demo_worker_calls :: "nat \<Rightarrow> event list" where
  "demo_worker_calls i =
     [Call_prepare_global_logging ''out'' False (int i) (PInt 2),
      Call_prepare_environment demo_worker_params,
      Call_environ_setitem ''ALLENNLP_PROCS_PER_NODE'' 2,
      Call_Params_setitem [''trainer'', ''cuda_device''] (PInt (int i)),
      Call_Params_setitem [''trainer'', ''world_size''] (PInt 2),
      Call_Params_setitem [''trainer'', ''distributed''] (PBool True),
      Call_cuda_set_device (int i),
      Call_init_process_group ''nccl'' (PStr ''127.0.0.1'') (PInt 29500) (PInt 2) (int i),
      Call_TrainModel_from_params
        (AList.update ''trainer''
           (PDict [(''cuda_device'', PInt (int i)), (''world_size'', PInt 2),
                   (''distributed'', PBool True)]) demo_worker_params) ''out'' (int i) []] @
     demo_construction @
     [Call_dist_barrier, Call_trainer_train demo_trainer] @
     (if i = 0 then [Call_dump_metrics ''out/metrics.json'' [(''best_epoch'', PInt 0)]]
      else [])"

section \<open>Properties\<close>

subsection \<open>Sequencing\<close>

lemma bind_Inr: "bind (l, Inr x) f = (l @ fst (f x), snd (f x))"
  by (simp add: bind_def split: prod.splits)

lemma bind_Inl: "bind (l, Inl e) f = (l, Inl e)"
  by (simp add: bind_def)

lemma bind_ret: "bind (ret x) f = f x"
  by (simp add: ret_def bind_def split: prod.splits)

lemma bind_raise: "bind (raise e) f = raise e"
  by (simp add: raise_def bind_def)

lemma bind_pair_Inr: "bind (l, Inr x) f = apfst ((@) l) (f x)"
  by (simp add: bind_def split: prod.splits)

lemma bind_call_Inr: "bind (call ev (Inr x)) f = apfst ((#) ev) (f x)"
  by (simp add: call_def bind_def split: prod.splits)

lemma bind_call_Inl: "bind (call ev (Inl e)) f = ([ev], Inl e)"
  by (simp add: call_def bind_Inl)

lemma bind_call_unit_None:
  "raises ext ev = None \<Longrightarrow> bind (call_unit ext ev) f = apfst ((#) ev) (f ())"
  by (simp add: call_unit_def bind_call_Inr)

lemma bind_call_unit_Some:
  "raises ext ev = Some e \<Longrightarrow> bind (call_unit ext ev) f = ([ev], Inl e)"
  by (simp add: call_unit_def bind_call_Inl)

lemma bind_lift_Inr: "bind (lift (Inr x)) f = f x"
  by (simp add: lift_def bind_def split: prod.splits)

lemma bind_lift_Inl: "bind (lift (Inl e)) f = ([], Inl e)"
  by (simp add: lift_def bind_def)

lemma bind_effect: "bind (effect ev) f = apfst ((#) ev) (f ())"
  by (simp add: effect_def bind_def split: prod.splits)

lemma fst_bind:
  "fst (bind m f) = fst m @ (case snd m of Inl e \<Rightarrow> [] | Inr x \<Rightarrow> fst (f x))"
  by (cases m) (auto simp: bind_def split: sum.splits prod.splits)

lemma snd_bind:
  "snd (bind m f) = (case snd m of Inl e \<Rightarrow> Inl e | Inr x \<Rightarrow> snd (f x))"
  by (cases m) (auto simp: bind_def split: sum.splits prod.splits)

text \<open>
  C6. \<open>TrainModel.run\<close> has no logic of its own: its only call is
  \<open>self.trainer.train()\<close>, and it returns, or raises, exactly what that call returns or
  raises.
\<close>

theorem run_delegates_to_trainer:
  "run ext self = ([Call_trainer_train (trainer self)], trainer_train ext (trainer self))"
  by (simp add: run_def call_def)

subsection \<open>The order of construction in \<open>from_partial_objects\<close>\<close>

lemma check_datasets_ok:
  "set keys \<subseteq> fst ` set datasets \<Longrightarrow> check_datasets_for_vocab_creation keys datasets = ret ()"
  by (induction keys) auto

lemma fst_check_datasets: "fst (check_datasets_for_vocab_creation keys datasets) = []"
  by (induction keys) (auto simp: ret_def raise_def)

text \<open>
  Whatever the collaborators answer, and wherever the call ends, the calls made so far
  follow the order data, vocabulary, model, trainer.
\<close>

lemma from_partial_objects_stages:
  "\<exists>full \<in> set construction_orders.
     prefix (map stage_of (fst (from_partial_objects ext serialization_dir' local_rank
       batch_weight_key' dataset_reader train_data_path model' iterator trainer' vocabulary
       datasets_for_vocab_creation validation_dataset_reader validation_data_path
       validation_iterator test_data_path evaluate_on_test'))) full"
  unfolding from_partial_objects_def construction_orders_def
  by (simp add: fst_bind snd_bind fst_check_datasets call_def call_unit_def lift_def ret_def
        raise_def Let_def dict_getitem_def split: sum.splits prod.splits option.splits)

text \<open>
  C1. When every collaborator returns, \<open>from_partial_objects\<close> makes exactly these
  calls, in this order: it reads the datasets; it constructs the vocabulary from the
  instances read (with \<open>Vocabulary.from_instances\<close> on what is left of them when
  \<open>construct\<close> gave \<open>None\<close>); it constructs the model with that vocabulary; it saves
  the vocabulary (the master only) and indexes the iterators; and last it constructs
  the trainer, with the constructed model, the iterator, the training data, the
  validation iterator and the validation data. The object returned holds that model
  and that trainer.
\<close>

theorem from_partial_objects_order:
  assumes rd: "read_all_datasets ext train_data_path dataset_reader validation_dataset_reader
            validation_data_path test_data_path = Inr datasets"
    and keys: "case datasets_for_vocab_creation of None \<Rightarrow> True
               | Some keys \<Rightarrow> set keys \<subseteq> fst ` set datasets"
    and insts: "instances = instance_generator datasets datasets_for_vocab_creation"
    and voc: "vocabulary = Some construct" "construct instances = Inr (taken, constructed)"
    and voc': "(case constructed of Some v' \<Rightarrow> Inr v'
                | None \<Rightarrow> Vocabulary_from_instances ext (drop taken instances)) = Inr v"
    and mdl: "model' v = Inr m"
    and save: "is_master ext \<longrightarrow> raises ext (Call_Vocabulary_save_to_files v
                 (os_path_join serialization_dir' ''vocabulary'')) = None"
    and vit: "vit = (case validation_iterator of None \<Rightarrow> iterator | Some it \<Rightarrow> it)"
    and idx: "raises ext (Call_index_with iterator (vocab m)) = None"
             "raises ext (Call_index_with vit (vocab m)) = None"
    and train: "map_of datasets ''train'' = Some train_data"
    and tr: "trainer' m iterator train_data vit (map_of datasets ''validation'') = Inr t"
  shows "from_partial_objects ext serialization_dir' local_rank batch_weight_key'
           dataset_reader train_data_path model' iterator trainer' vocabulary
           datasets_for_vocab_creation validation_dataset_reader validation_data_path
           validation_iterator test_data_path evaluate_on_test' =
         ([Call_read_all_datasets train_data_path dataset_reader validation_dataset_reader
             validation_data_path test_data_path,
           Call_Lazy_vocabulary_construct instances] @
          (case constructed of Some v' \<Rightarrow> []
           | None \<Rightarrow> [Call_Vocabulary_from_instances (drop taken instances)]) @
          [Call_Lazy_model_construct v] @
          (if is_master ext then
             [Call_Vocabulary_save_to_files v (os_path_join serialization_dir' ''vocabulary'')]
           else []) @
          [Call_index_with iterator (vocab m),
           Call_index_with vit (vocab m),
           Call_Lazy_trainer_construct m iterator train_data vit
             (map_of datasets ''validation'')],
          Inr \<lparr>serialization_dir = serialization_dir', model = m, trainer = t,
               evaluation_dataset = map_of datasets ''test'', evaluation_iterator = vit,
               evaluate_on_test = evaluate_on_test', batch_weight_key = batch_weight_key'\<rparr>)"
proof -
  have chk: "(if truthy datasets_for_vocab_creation then
                check_datasets_for_vocab_creation (the datasets_for_vocab_creation) datasets
              else ret ()) = ret ()"
    using keys by (cases datasets_for_vocab_creation) (simp_all add: truthy_def check_datasets_ok)
  show ?thesis
  proof (cases constructed)
    case None
    with voc' have "Vocabulary_from_instances ext (drop taken instances) = Inr v" by simp
    with None show ?thesis
      unfolding from_partial_objects_def
      using rd voc mdl save idx train tr
      by (simp add: chk insts[symmetric] vit[symmetric] Let_def bind_call_Inr bind_ret
          bind_call_unit_None bind_lift_Inr dict_getitem_def)
         (simp add: ret_def)
  next
    case (Some v')
    with voc' have "v' = v" by simp
    with Some show ?thesis
      unfolding from_partial_objects_def
      using rd voc mdl save idx train tr
      by (simp add: chk insts[symmetric] vit[symmetric] Let_def bind_call_Inr bind_ret
          bind_call_unit_None bind_lift_Inr dict_getitem_def)
         (simp add: ret_def)
  qed
qed

theorem from_partial_objects_order_witness:
  "from_partial_objects demo_externals ''out'' 0 [] (DatasetReader 0) ''train.txt''
           (\<lambda>v. Inr \<lparr>model_id = 0, vocab = v\<rparr>) (DataIterator 0)
           (\<lambda>m it td vit vd. Inr demo_trainer)
           (Some (\<lambda>insts. Inr (0, None))) None None (Some ''dev.txt'') None None False =
   ([Call_read_all_datasets ''train.txt'' (DatasetReader 0) None (Some ''dev.txt'') None,
     Call_Lazy_vocabulary_construct [Instance 0, Instance 1, Instance 2],
     Call_Vocabulary_from_instances [Instance 0, Instance 1, Instance 2],
     Call_Lazy_model_construct demo_vocabulary,
     Call_Vocabulary_save_to_files demo_vocabulary ''out/vocabulary'',
     Call_index_with (DataIterator 0) demo_vocabulary,
     Call_index_with (DataIterator 0) demo_vocabulary,
     Call_Lazy_trainer_construct \<lparr>model_id = 0, vocab = demo_vocabulary\<rparr> (DataIterator 0)
       [Instance 0, Instance 1] (DataIterator 0) (Some [Instance 2])],
    Inr \<lparr>serialization_dir = ''out'', model = \<lparr>model_id = 0, vocab = demo_vocabulary\<rparr>,
         trainer = demo_trainer, evaluation_dataset = None,
         evaluation_iterator = DataIterator 0, evaluate_on_test = False,
         batch_weight_key = []\<rparr>)"
  using from_partial_objects_order[where ext = demo_externals and datasets = demo_datasets
      and datasets_for_vocab_creation = None
      and instances = "[Instance 0, Instance 1, Instance 2]"
      and vocabulary = "Some (\<lambda>insts. Inr (0, None))" and construct = "\<lambda>insts. Inr (0, None)"
      and taken = 0 and constructed = None and v = demo_vocabulary
      and model' = "\<lambda>v. Inr \<lparr>model_id = 0, vocab = v\<rparr>"
      and m = "\<lparr>model_id = 0, vocab = demo_vocabulary\<rparr>"
      and serialization_dir' = "''out''" and vit = "DataIterator 0"
      and validation_iterator = None and iterator = "DataIterator 0"
      and train_data = "[Instance 0, Instance 1]"
      and trainer' = "\<lambda>m it td vit vd. Inr demo_trainer" and t = demo_trainer
      and train_data_path = "''train.txt''" and dataset_reader = "DatasetReader 0"
      and validation_dataset_reader = None and validation_data_path = "Some ''dev.txt''"
      and test_data_path = None and local_rank = 0 and batch_weight_key' = "[]"
      and evaluate_on_test' = False]
  by (simp add: demo_externals_def demo_datasets_def instance_generator_def truthy_def
      os_path_join_def)

subsection \<open>The check of \<open>datasets_for_vocab_creation\<close>\<close>

lemma check_datasets_find:
  "check_datasets_for_vocab_creation keys datasets =
     (case find (\<lambda>key. key \<notin> fst ` set datasets) keys of
        None \<Rightarrow> ret ()
      | Some bad \<Rightarrow> raise (ConfigurationError
          (''invalid '' @ [CHR 0x27] @ ''dataset_for_vocab_creation'' @ [CHR 0x27] @ '' '' @ bad)))"
  by (induction keys) auto

text \<open>
  C8. Once the datasets are read, a non-empty \<open>datasets_for_vocab_creation\<close> with a
  key that is not a key of the datasets read makes \<open>from_partial_objects\<close> raise a
  \<open>ConfigurationError\<close> naming the first such key, before any other call. When all
  its keys are keys of the datasets read, the vocabulary's \<open>construct\<close> receives the
  instances of the listed datasets only, in the order of the datasets, and
  \<open>Vocabulary.from_instances\<close>, if called, what is left of these.
\<close>

theorem datasets_for_vocab_creation_checked:
  assumes rd: "read_all_datasets ext train_data_path dataset_reader validation_dataset_reader
            validation_data_path test_data_path = Inr datasets"
    and keys: "datasets_for_vocab_creation = Some keys" "keys \<noteq> []"
  shows "(find (\<lambda>key. key \<notin> fst ` set datasets) keys = Some bad \<longrightarrow>
          from_partial_objects ext serialization_dir' local_rank batch_weight_key'
            dataset_reader train_data_path model' iterator trainer' vocabulary
            datasets_for_vocab_creation validation_dataset_reader validation_data_path
            validation_iterator test_data_path evaluate_on_test' =
          ([Call_read_all_datasets train_data_path dataset_reader validation_dataset_reader
              validation_data_path test_data_path],
           Inl (ConfigurationError
             (''invalid '' @ [CHR 0x27] @ ''dataset_for_vocab_creation'' @ [CHR 0x27] @ '' '' @ bad))))
       \<and> (set keys \<subseteq> fst ` set datasets \<and> vocabulary = Some construct \<longrightarrow>
          take 2 (fst (from_partial_objects ext serialization_dir' local_rank batch_weight_key'
            dataset_reader train_data_path model' iterator trainer' vocabulary
            datasets_for_vocab_creation validation_dataset_reader validation_data_path
            validation_iterator test_data_path evaluate_on_test')) =
          [Call_read_all_datasets train_data_path dataset_reader validation_dataset_reader
              validation_data_path test_data_path,
           Call_Lazy_vocabulary_construct
             (concat (map snd (filter (\<lambda>(key, dataset). key \<in> set keys) datasets)))]
          \<and> (\<forall>insts. Call_Vocabulary_from_instances insts \<in>
                set (fst (from_partial_objects ext serialization_dir' local_rank batch_weight_key'
                  dataset_reader train_data_path model' iterator trainer' vocabulary
                  datasets_for_vocab_creation validation_dataset_reader validation_data_path
                  validation_iterator test_data_path evaluate_on_test')) \<longrightarrow>
              (\<exists>k. insts = drop k
                 (concat (map snd (filter (\<lambda>(key, dataset). key \<in> set keys) datasets))))))"
proof (intro conjI impI)
  assume "find (\<lambda>key. key \<notin> fst ` set datasets) keys = Some bad"
  then show "from_partial_objects ext serialization_dir' local_rank batch_weight_key'
            dataset_reader train_data_path model' iterator trainer' vocabulary
            datasets_for_vocab_creation validation_dataset_reader validation_data_path
            validation_iterator test_data_path evaluate_on_test' =
          ([Call_read_all_datasets train_data_path dataset_reader validation_dataset_reader
              validation_data_path test_data_path],
           Inl (ConfigurationError
             (''invalid '' @ [CHR 0x27] @ ''dataset_for_vocab_creation'' @ [CHR 0x27] @ '' '' @ bad)))"
    unfolding from_partial_objects_def using rd keys
    by (simp add: bind_call_Inr truthy_def check_datasets_find bind_raise)
       (simp add: raise_def)
next
  assume a: "set keys \<subseteq> fst ` set datasets \<and> vocabulary = Some construct"
  then have chk: "check_datasets_for_vocab_creation keys datasets = ret ()"
    by (simp add: check_datasets_ok)
  have gen: "instance_generator datasets (Some keys) =
      concat (map snd (filter (\<lambda>(key, dataset). key \<in> set keys) datasets))"
    using keys by (simp add: instance_generator_def truthy_def)
  show "take 2 (fst (from_partial_objects ext serialization_dir' local_rank batch_weight_key'
            dataset_reader train_data_path model' iterator trainer' vocabulary
            datasets_for_vocab_creation validation_dataset_reader validation_data_path
            validation_iterator test_data_path evaluate_on_test')) =
          [Call_read_all_datasets train_data_path dataset_reader validation_dataset_reader
              validation_data_path test_data_path,
           Call_Lazy_vocabulary_construct
             (concat (map snd (filter (\<lambda>(key, dataset). key \<in> set keys) datasets)))]"
    unfolding from_partial_objects_def using rd keys a
    by (simp add: bind_call_Inr truthy_def chk bind_ret gen Let_def fst_bind call_def)
  show "\<forall>insts. Call_Vocabulary_from_instances insts \<in>
                set (fst (from_partial_objects ext serialization_dir' local_rank batch_weight_key'
                  dataset_reader train_data_path model' iterator trainer' vocabulary
                  datasets_for_vocab_creation validation_dataset_reader validation_data_path
                  validation_iterator test_data_path evaluate_on_test')) \<longrightarrow>
              (\<exists>k. insts = drop k
                 (concat (map snd (filter (\<lambda>(key, dataset). key \<in> set keys) datasets))))"
    unfolding from_partial_objects_def using rd keys a
    by (auto simp add: bind_call_Inr truthy_def chk bind_ret gen Let_def fst_bind snd_bind call_def
        call_unit_def lift_def ret_def dict_getitem_def
        split: sum.splits option.splits prod.splits if_splits)
qed

theorem datasets_for_vocab_creation_checked_witness:
  "from_partial_objects demo_externals ''out'' 0 [] (DatasetReader 0) ''train.txt''
       (\<lambda>v. Inr \<lparr>model_id = 0, vocab = v\<rparr>) (DataIterator 0)
       (\<lambda>m it td vit vd. Inr demo_trainer)
       (Some (\<lambda>insts. Inr (0, None))) (Some [''train'', ''test'']) None (Some ''dev.txt'')
       None None False =
     ([Call_read_all_datasets ''train.txt'' (DatasetReader 0) None (Some ''dev.txt'') None],
      Inl (ConfigurationError
        (''invalid '' @ [CHR 0x27] @ ''dataset_for_vocab_creation'' @ [CHR 0x27] @ '' test'')))
   \<and> take 2 (fst (from_partial_objects demo_externals ''out'' 0 [] (DatasetReader 0)
       ''train.txt'' (\<lambda>v. Inr \<lparr>model_id = 0, vocab = v\<rparr>) (DataIterator 0)
       (\<lambda>m it td vit vd. Inr demo_trainer)
       (Some (\<lambda>insts. Inr (0, None))) (Some [''validation'']) None (Some ''dev.txt'')
       None None False)) =
     [Call_read_all_datasets ''train.txt'' (DatasetReader 0) None (Some ''dev.txt'') None,
      Call_Lazy_vocabulary_construct [Instance 2]]"
  using datasets_for_vocab_creation_checked[where ext = demo_externals
      and datasets = demo_datasets and datasets_for_vocab_creation = "Some [''train'', ''test'']"
      and keys = "[''train'', ''test'']" and bad = "''test''"
      and train_data_path = "''train.txt''" and dataset_reader = "DatasetReader 0"
      and validation_dataset_reader = None and validation_data_path = "Some ''dev.txt''"
      and test_data_path = None, THEN conjunct1]
    datasets_for_vocab_creation_checked[where ext = demo_externals
      and datasets = demo_datasets and datasets_for_vocab_creation = "Some [''validation'']"
      and keys = "[''validation'']" and vocabulary = "Some (\<lambda>insts. Inr (0, None))"
      and construct = "\<lambda>insts. Inr (0, None)"
      and train_data_path = "''train.txt''" and dataset_reader = "DatasetReader 0"
      and validation_dataset_reader = None and validation_data_path = "Some ''dev.txt''"
      and test_data_path = None, THEN conjunct2, THEN mp, THEN conjunct1]
  by (simp add: demo_externals_def demo_datasets_def)

subsection \<open>The worker's calls\<close>

lemma import_packages_ok:
  "\<forall>p \<in> set packages. raises ext (Call_import_submodules p) = None \<Longrightarrow>
   import_packages ext packages = (map Call_import_submodules packages, Inr ())"
  by (induction packages) (simp_all add: ret_def bind_call_unit_None)

lemma params_trainer_setitem_ok:
  "map_of params ''trainer'' = Some (PDict t) \<Longrightarrow>
   params_trainer_setitem params key v =
     ([Call_Params_setitem [''trainer'', key] v],
      Inr (AList.update ''trainer'' (PDict (AList.update key v t)) params))"
  by (simp add: params_trainer_setitem_def bind_effect ret_def)

lemma bind_params_trainer_setitem:
  "map_of params ''trainer'' = Some (PDict t) \<Longrightarrow>
   bind (params_trainer_setitem params key v) f =
     apfst ((#) (Call_Params_setitem [''trainer'', key] v))
       (f (AList.update ''trainer'' (PDict (AList.update key v t)) params))"
  by (simp add: params_trainer_setitem_ok bind_def split: prod.splits)

lemma distributed_setup_ok:
  assumes imps: "case include_package of None \<Rightarrow> True
             | Some packages \<Rightarrow> \<forall>p \<in> set packages. raises ext (Call_import_submodules p) = None"
    and len: "py_len distributed_device_ids = Inr n"
    and gpu: "py_getitem distributed_device_ids process_rank = Inr gpu_id"
    and trainer: "map_of params ''trainer'' = Some (PDict t)"
    and dev: "py_int ext gpu_id = Inr device"
    and setdev: "raises ext (Call_cuda_set_device device) = None"
    and init: "raises ext (Call_init_process_group ''nccl'' master_addr master_port world_size
                 (node_rank * int n + process_rank)) = None"
  shows "distributed_setup ext process_rank params include_package node_rank master_addr
           master_port world_size distributed_device_ids =
         (map Call_import_submodules (case include_package of None \<Rightarrow> [] | Some ps \<Rightarrow> ps) @
          [Call_environ_setitem ''ALLENNLP_PROCS_PER_NODE'' n,
           Call_Params_setitem [''trainer'', ''cuda_device''] gpu_id,
           Call_Params_setitem [''trainer'', ''world_size''] world_size,
           Call_Params_setitem [''trainer'', ''distributed''] (PBool True),
           Call_cuda_set_device device,
           Call_init_process_group ''nccl'' master_addr master_port world_size
             (node_rank * int n + process_rank)],
          Inr (AList.update ''trainer''
                 (PDict (AList.update ''distributed'' (PBool True)
                   (AList.update ''world_size'' world_size
                     (AList.update ''cuda_device'' gpu_id t)))) params))"
proof -
  have imp: "(case include_package of None \<Rightarrow> ret ()
              | Some packages \<Rightarrow> import_packages ext packages) =
             (map Call_import_submodules (case include_package of None \<Rightarrow> [] | Some ps \<Rightarrow> ps),
              Inr ())"
    using imps by (cases include_package) (simp_all add: ret_def import_packages_ok)
  show ?thesis
    unfolding distributed_setup_def imp
    using len gpu trainer dev setdev init
    by (simp add: bind_pair_Inr bind_lift_Inr bind_effect Let_def bind_params_trainer_setitem
        AList.update_conv' bind_call_unit_None ret_def)
qed

subsection \<open>The concrete run\<close>

lemma demo_fields:
  "CONFIG_NAME demo_externals = ''config.json''"
  "DEFAULT_WEIGHTS demo_externals = ''best.th''"
  "raises demo_externals ev = None"
  "Params_from_file demo_externals f ov = Inr [(''trainer'', PDict [])]"
  "make_vocab_from_params demo_externals params dir = Inr demo_vocabulary"
  "Model_load demo_externals params dir = Inr \<lparr>model_id = 1, vocab = demo_vocabulary\<rparr>"
  "prepare_environment demo_externals params = Inr params"
  "int_of_str demo_externals s = None"
  "TrainModel_from_params demo_externals params dir local_rank key = Inr demo_objects"
  "read_all_datasets demo_externals tp dr vdr vdp tdp = Inr demo_datasets"
  "Vocabulary_from_instances demo_externals insts = Inr demo_vocabulary"
  "is_master demo_externals = True"
  "os_path_exists demo_externals path = False"
  "trainer_train demo_externals t = Inr [(''best_epoch'', PInt 0)]"
  "evaluate demo_externals m data it device key = Inr []"
  by (simp_all add: demo_externals_def)

lemma demo_from_params:
  "from_params demo_externals params ''out'' local_rank [] =
     (Call_TrainModel_from_params params ''out'' local_rank [] # demo_construction,
      Inr demo_train_loop)"
  unfolding from_params_def from_partial_objects_def
  by (simp add: demo_fields demo_objects_def demo_datasets_def demo_construction_def
      demo_train_loop_def demo_model_def bind_call_Inr bind_call_unit_None bind_ret
      bind_lift_Inr truthy_def instance_generator_def dict_getitem_def os_path_join_def
      Let_def ret_def bind_pair_Inr)

lemma demo_loop_fields:
  "model demo_train_loop = demo_model"
  "trainer demo_train_loop = demo_trainer"
  by (simp_all add: demo_train_loop_def)

lemma demo_finish:
  "finish demo_externals demo_train_loop metrics =
     ([Call_dump_metrics ''out/metrics.json'' metrics], Inr ())"
  unfolding finish_def
  by (simp add: demo_fields demo_train_loop_def truthy_def bind_ret call_unit_def
      call_def os_path_join_def)

subsection \<open>What \<open>_train_worker\<close> returns\<close>

lemma train_worker_after_setup:
  assumes lg: "raises ext (Call_prepare_global_logging serialization_dir' file_friendly_logging
                 process_rank world_size) = None"
    and pe: "prepare_environment ext params = Inr params_e"
    and gt: "py_gt world_size 1 = Inr distributed"
    and stp: "(if distributed then
                   distributed_setup ext process_rank params_e include_package node_rank master_addr
                     master_port world_size distributed_device_ids
                 else ret params_e) = (setup_calls, Inr params_d)"
    and fp: "from_params ext params_d serialization_dir' process_rank batch_weight_key' =
               (construction_calls, Inr train_loop)"
  shows "train_worker ext process_rank params serialization_dir' file_friendly_logging recover
           include_package batch_weight_key' node_rank master_addr master_port world_size
           distributed_device_ids model' extend_vocab embedding_sources_mapping =
         apfst ((@) ([Call_prepare_global_logging serialization_dir' file_friendly_logging
                        process_rank world_size,
                      Call_prepare_environment params] @ setup_calls @ construction_calls))
           (bind (try_except_KeyboardInterrupt
                    (bind (if distributed then call_unit ext Call_dist_barrier else ret ()) (\<lambda>_.
                     run ext train_loop))
                    (bind (if process_rank = 0 \<and> os_path_exists ext
                                (os_path_join serialization_dir' (DEFAULT_WEIGHTS ext)) then
                             call_unit ext (Call_archive_model serialization_dir')
                           else ret ()) (\<lambda>_.
                     raise KeyboardInterrupt))) (\<lambda>metrics.
            bind (if process_rank = 0 then finish ext train_loop metrics else ret ()) (\<lambda>_.
            if \<not> distributed then ret (Some (model train_loop)) else ret None)))"
  unfolding train_worker_def
  using lg pe gt
  by (simp add: bind_call_unit_None bind_call_Inr bind_lift_Inr Let_def stp fp bind_pair_Inr
      apfst_def map_prod_def split: prod.splits)

text \<open>
  C9, as the code has it. When every collaborator returns, \<open>_train_worker\<close> returns
  the model of the training loop if and only if \<open>world_size\<close> is at most 1 (the
  condition of the source is \<open>world_size > 1\<close>), and \<open>None\<close> for every
  \<open>world_size\<close> greater than 1; the calls of \<open>train_loop.finish(metrics)\<close> are made
  by the process with \<open>process_rank\<close> 0 and by no other.
\<close>

theorem train_worker_returns_model_unless_distributed:
  assumes lg: "raises ext (Call_prepare_global_logging serialization_dir' file_friendly_logging
                 process_rank (PInt world_size)) = None"
    and pe: "prepare_environment ext params = Inr params_e"
    and stp: "(if world_size > 1 then
                   distributed_setup ext process_rank params_e include_package node_rank master_addr
                     master_port (PInt world_size) distributed_device_ids
                 else ret params_e) = (setup_calls, Inr params_d)"
    and fp: "from_params ext params_d serialization_dir' process_rank batch_weight_key' =
               (construction_calls, Inr train_loop)"
    and barrier: "world_size > 1 \<longrightarrow> raises ext Call_dist_barrier = None"
    and train: "trainer_train ext (trainer train_loop) = Inr metrics"
    and fin: "process_rank = 0 \<longrightarrow> finish ext train_loop metrics = (finish_calls, Inr ())"
  shows "train_worker ext process_rank params serialization_dir' file_friendly_logging recover
           include_package batch_weight_key' node_rank master_addr master_port
           (PInt world_size) distributed_device_ids model' extend_vocab
           embedding_sources_mapping =
         ([Call_prepare_global_logging serialization_dir' file_friendly_logging
             process_rank (PInt world_size),
           Call_prepare_environment params] @ setup_calls @ construction_calls @
          (if world_size > 1 then [Call_dist_barrier] else []) @
          [Call_trainer_train (trainer train_loop)] @
          (if process_rank = 0 then finish_calls else []),
          Inr (if world_size \<le> 1 then Some (model train_loop) else None))"
proof -
  have gt: "py_gt (PInt world_size) 1 = Inr (world_size > 1)" by simp
  have body: "bind (if world_size > 1 then call_unit ext Call_dist_barrier else ret ())
                (\<lambda>_. run ext train_loop) =
              ((if world_size > 1 then [Call_dist_barrier] else []) @
               [Call_trainer_train (trainer train_loop)], Inr metrics)"
    using barrier train
    by (simp add: bind_call_unit_None bind_ret run_def call_def)
  show ?thesis
    unfolding train_worker_after_setup[OF lg pe gt stp fp] body
    using fin
    by (simp add: try_except_KeyboardInterrupt_def bind_pair_Inr bind_ret ret_def)
qed

theorem train_worker_returns_model_unless_distributed_witness:
  "train_worker demo_externals 1 [(''trainer'', PDict [])] ''out'' False False None [] 0
     (PStr ''127.0.0.1'') (PInt 29500) (PInt 2) (PList [PInt 0, PInt 1]) None False None =
   ([Call_prepare_global_logging ''out'' False 1 (PInt 2),
     Call_prepare_environment [(''trainer'', PDict [])],
     Call_environ_setitem ''ALLENNLP_PROCS_PER_NODE'' 2,
     Call_Params_setitem [''trainer'', ''cuda_device''] (PInt 1),
     Call_Params_setitem [''trainer'', ''world_size''] (PInt 2),
     Call_Params_setitem [''trainer'', ''distributed''] (PBool True),
     Call_cuda_set_device 1,
     Call_init_process_group ''nccl'' (PStr ''127.0.0.1'') (PInt 29500) (PInt 2) 1,
     Call_TrainModel_from_params
       [(''trainer'', PDict [(''cuda_device'', PInt 1), (''world_size'', PInt 2),
                            (''distributed'', PBool True)])] ''out'' 1 []] @
    demo_construction @
    [Call_dist_barrier, Call_trainer_train demo_trainer],
    Inr None)
   \<and> train_worker demo_externals 0 [(''trainer'', PDict [])] ''out'' False False None [] 0
     (PStr ''127.0.0.1'') (PInt 29500) (PInt 1) PNone None False None =
   ([Call_prepare_global_logging ''out'' False 0 (PInt 1),
     Call_prepare_environment [(''trainer'', PDict [])],
     Call_TrainModel_from_params [(''trainer'', PDict [])] ''out'' 0 []] @
    demo_construction @
    [Call_trainer_train demo_trainer,
     Call_dump_metrics ''out/metrics.json'' [(''best_epoch'', PInt 0)]],
    Inr (Some demo_model))"
proof -
  have s: "distributed_setup demo_externals 1 [(''trainer'', PDict [])] None 0
             (PStr ''127.0.0.1'') (PInt 29500) (PInt 2) (PList [PInt 0, PInt 1]) =
           ([Call_environ_setitem ''ALLENNLP_PROCS_PER_NODE'' 2,
             Call_Params_setitem [''trainer'', ''cuda_device''] (PInt 1),
             Call_Params_setitem [''trainer'', ''world_size''] (PInt 2),
             Call_Params_setitem [''trainer'', ''distributed''] (PBool True),
             Call_cuda_set_device 1,
             Call_init_process_group ''nccl'' (PStr ''127.0.0.1'') (PInt 29500) (PInt 2) 1],
            Inr [(''trainer'', PDict [(''cuda_device'', PInt 1), (''world_size'', PInt 2),
                                     (''distributed'', PBool True)])])"
    using distributed_setup_ok[where ext = demo_externals and include_package = None
        and distributed_device_ids = "PList [PInt 0, PInt 1]" and n = 2 and process_rank = 1
        and gpu_id = "PInt 1" and params = "[(''trainer'', PDict [])]" and t = "[]"
        and device = 1 and master_addr = "PStr ''127.0.0.1''" and master_port = "PInt 29500"
        and world_size = "PInt 2" and node_rank = 0]
    by (simp add: demo_fields seq_index_def)
  have a: "train_worker demo_externals 1 [(''trainer'', PDict [])] ''out'' False False None [] 0
     (PStr ''127.0.0.1'') (PInt 29500) (PInt 2) (PList [PInt 0, PInt 1]) None False None =
     ([Call_prepare_global_logging ''out'' False 1 (PInt 2),
       Call_prepare_environment [(''trainer'', PDict [])]] @
      [Call_environ_setitem ''ALLENNLP_PROCS_PER_NODE'' 2,
       Call_Params_setitem [''trainer'', ''cuda_device''] (PInt 1),
       Call_Params_setitem [''trainer'', ''world_size''] (PInt 2),
       Call_Params_setitem [''trainer'', ''distributed''] (PBool True),
       Call_cuda_set_device 1,
       Call_init_process_group ''nccl'' (PStr ''127.0.0.1'') (PInt 29500) (PInt 2) 1] @
      (Call_TrainModel_from_params
         [(''trainer'', PDict [(''cuda_device'', PInt 1), (''world_size'', PInt 2),
                              (''distributed'', PBool True)])] ''out'' 1 [] # demo_construction) @
      (if (2::int) > 1 then [Call_dist_barrier] else []) @
      [Call_trainer_train (trainer demo_train_loop)] @
      (if (1::int) = 0 then [] else []),
      Inr (if (2::int) \<le> 1 then Some (model demo_train_loop) else None))"
    by (rule train_worker_returns_model_unless_distributed[where
          params_e = "[(''trainer'', PDict [])]" and metrics = "[(''best_epoch'', PInt 0)]"])
       (simp_all add: s demo_from_params demo_fields)
  have b: "train_worker demo_externals 0 [(''trainer'', PDict [])] ''out'' False False None [] 0
     (PStr ''127.0.0.1'') (PInt 29500) (PInt 1) PNone None False None =
     ([Call_prepare_global_logging ''out'' False 0 (PInt 1),
       Call_prepare_environment [(''trainer'', PDict [])]] @ [] @
      (Call_TrainModel_from_params [(''trainer'', PDict [])] ''out'' 0 [] # demo_construction) @
      (if (1::int) > 1 then [Call_dist_barrier] else []) @
      [Call_trainer_train (trainer demo_train_loop)] @
      (if (0::int) = 0 then [Call_dump_metrics ''out/metrics.json'' [(''best_epoch'', PInt 0)]]
       else []),
      Inr (if (1::int) \<le> 1 then Some (model demo_train_loop) else None))"
    by (rule train_worker_returns_model_unless_distributed[where
          params_e = "[(''trainer'', PDict [])]" and metrics = "[(''best_epoch'', PInt 0)]"])
       (simp_all add: demo_from_params demo_finish ret_def demo_fields)
  show ?thesis
    unfolding a b by (simp add: demo_loop_fields)
qed

text \<open>
  C9 as stated ("returns the model if and only if \<open>world_size\<close> equals 1") fails for
  \<open>world_size = 0\<close>: the worker is not distributed and returns the model.
\<close>

theorem train_worker_world_size_0_counterexample:
  "train_worker demo_externals 0 [(''trainer'', PDict [])] ''out'' False False None [] 0
     (PStr ''127.0.0.1'') (PInt 29500) (PInt 0) PNone None False None =
   ([Call_prepare_global_logging ''out'' False 0 (PInt 0),
     Call_prepare_environment [(''trainer'', PDict [])],
     Call_TrainModel_from_params [(''trainer'', PDict [])] ''out'' 0 []] @
    demo_construction @
    [Call_trainer_train demo_trainer,
     Call_dump_metrics ''out/metrics.json'' [(''best_epoch'', PInt 0)]],
    Inr (Some demo_model))
   \<and> (0::int) \<noteq> 1"
  unfolding train_worker_def
  by (simp add: bind_call_unit_None bind_call_Inr bind_lift_Inr bind_ret Let_def
      demo_from_params demo_finish bind_pair_Inr try_except_KeyboardInterrupt_def run_def
      call_def ret_def demo_fields demo_loop_fields)

subsection \<open>An interrupted training\<close>

lemma demo_from_params_of:
  assumes "TrainModel_from_params ext params ''out'' local_rank [] = Inr demo_objects"
    and "read_all_datasets ext ''train.txt'' (DatasetReader 0) None (Some ''dev.txt'') None =
           Inr demo_datasets"
    and "Vocabulary_from_instances ext [Instance 0, Instance 1, Instance 2] = Inr demo_vocabulary"
    and "is_master ext"
    and "raises ext (Call_Vocabulary_save_to_files demo_vocabulary ''out/vocabulary'') = None"
    and "raises ext (Call_index_with (DataIterator 0) demo_vocabulary) = None"
  shows "from_params ext params ''out'' local_rank [] =
     (Call_TrainModel_from_params params ''out'' local_rank [] # demo_construction,
      Inr demo_train_loop)"
  unfolding from_params_def from_partial_objects_def
  using assms
  by (simp add: demo_objects_def demo_datasets_def demo_construction_def
      demo_train_loop_def demo_model_def bind_call_Inr bind_call_unit_None bind_ret
      bind_lift_Inr truthy_def instance_generator_def dict_getitem_def os_path_join_def
      Let_def ret_def bind_pair_Inr)

lemma try_except_KeyboardInterrupt_caught:
  "try_except_KeyboardInterrupt (l, Inl KeyboardInterrupt) handler =
     apfst ((@) l) handler"
  by (simp add: try_except_KeyboardInterrupt_def split: prod.splits)

text \<open>
  C7, as the code has it. When the \<open>try\<close> block of \<open>_train_worker\<close> (the barrier and
  \<open>train_loop.run()\<close>) ends with a \<open>KeyboardInterrupt\<close>, \<open>archive_model\<close> is called if
  and only if \<open>process_rank\<close> is 0 and the default weights file exists in the
  serialization directory, it is the last call of the worker, and the worker ends with
  an exception: the \<open>KeyboardInterrupt\<close>, unless \<open>archive_model\<close> was called and raised,
  in which case what \<open>archive_model\<close> raised.
\<close>

theorem keyboard_interrupt_archives_and_propagates:
  assumes lg: "raises ext (Call_prepare_global_logging serialization_dir' file_friendly_logging
                 process_rank world_size) = None"
    and pe: "prepare_environment ext params = Inr params_e"
    and gt: "py_gt world_size 1 = Inr distributed"
    and stp: "(if distributed then
                 distributed_setup ext process_rank params_e include_package node_rank
                   master_addr master_port world_size distributed_device_ids
               else ret params_e) = (setup_calls, Inr params_d)"
    and fp: "from_params ext params_d serialization_dir' process_rank batch_weight_key' =
               (construction_calls, Inr train_loop)"
    and interrupted:
          "bind (if distributed then call_unit ext Call_dist_barrier else ret ())
             (\<lambda>_. run ext train_loop) = (training_calls, Inl KeyboardInterrupt)"
    and archiving: "archiving = (process_rank = 0 \<and> os_path_exists ext
                      (os_path_join serialization_dir' (DEFAULT_WEIGHTS ext)))"
  shows "train_worker ext process_rank params serialization_dir' file_friendly_logging recover
           include_package batch_weight_key' node_rank master_addr master_port world_size
           distributed_device_ids model' extend_vocab embedding_sources_mapping =
         ([Call_prepare_global_logging serialization_dir' file_friendly_logging
             process_rank world_size,
           Call_prepare_environment params] @ setup_calls @ construction_calls @
          training_calls @
          (if archiving then [Call_archive_model serialization_dir'] else []),
          Inl (if archiving then
                 (case raises ext (Call_archive_model serialization_dir') of
                    None \<Rightarrow> KeyboardInterrupt
                  | Some e \<Rightarrow> e)
               else KeyboardInterrupt))"
proof -
  have handler: "bind (if process_rank = 0 \<and> os_path_exists ext
                          (os_path_join serialization_dir' (DEFAULT_WEIGHTS ext)) then
                         call_unit ext (Call_archive_model serialization_dir')
                       else ret ()) (\<lambda>_. raise KeyboardInterrupt) =
                 ((if archiving then [Call_archive_model serialization_dir'] else []),
                  Inl (if archiving then
                         (case raises ext (Call_archive_model serialization_dir') of
                            None \<Rightarrow> KeyboardInterrupt
                          | Some e \<Rightarrow> e)
                       else KeyboardInterrupt))"
    unfolding archiving
    by (cases "raises ext (Call_archive_model serialization_dir')")
       (simp_all add: bind_call_unit_None bind_call_unit_Some bind_ret raise_def)
  show ?thesis
    unfolding train_worker_after_setup[OF lg pe gt stp fp] interrupted handler
      try_except_KeyboardInterrupt_caught
    by (simp add: bind_Inl)
qed

lemma demo_interrupted_fields:
  "raises demo_interrupted ev = None"
  "prepare_environment demo_interrupted params = Inr params"
  "TrainModel_from_params demo_interrupted params dir local_rank key = Inr demo_objects"
  "read_all_datasets demo_interrupted tp dr vdr vdp tdp = Inr demo_datasets"
  "Vocabulary_from_instances demo_interrupted insts = Inr demo_vocabulary"
  "is_master demo_interrupted = True"
  "os_path_exists demo_interrupted path = True"
  "trainer_train demo_interrupted t = Inl KeyboardInterrupt"
  "DEFAULT_WEIGHTS demo_interrupted = ''best.th''"
  by (simp_all add: demo_interrupted_def demo_fields)

lemma demo_archive_fails_fields:
  "raises demo_archive_fails ev =
     (if ev = Call_archive_model ''out'' then Some (ExternalError ''No space left on device'')
      else None)"
  "prepare_environment demo_archive_fails params = Inr params"
  "TrainModel_from_params demo_archive_fails params dir local_rank key = Inr demo_objects"
  "read_all_datasets demo_archive_fails tp dr vdr vdp tdp = Inr demo_datasets"
  "Vocabulary_from_instances demo_archive_fails insts = Inr demo_vocabulary"
  "is_master demo_archive_fails = True"
  "os_path_exists demo_archive_fails path = True"
  "trainer_train demo_archive_fails t = Inl KeyboardInterrupt"
  "DEFAULT_WEIGHTS demo_archive_fails = ''best.th''"
  by (simp_all add: demo_archive_fails_def demo_interrupted_fields)

theorem keyboard_interrupt_archives_and_propagates_witness:
  "train_worker demo_interrupted 0 [(''trainer'', PDict [])] ''out'' False False None [] 0
     (PStr ''127.0.0.1'') (PInt 29500) (PInt 1) PNone None False None =
   ([Call_prepare_global_logging ''out'' False 0 (PInt 1),
     Call_prepare_environment [(''trainer'', PDict [])],
     Call_TrainModel_from_params [(''trainer'', PDict [])] ''out'' 0 []] @
    demo_construction @
    [Call_trainer_train demo_trainer,
     Call_archive_model ''out''],
    Inl KeyboardInterrupt)"
proof -
  have fp: "from_params demo_interrupted [(''trainer'', PDict [])] ''out'' 0 [] =
     (Call_TrainModel_from_params [(''trainer'', PDict [])] ''out'' 0 [] # demo_construction,
      Inr demo_train_loop)"
    by (rule demo_from_params_of) (simp_all add: demo_interrupted_fields)
  show ?thesis
    using keyboard_interrupt_archives_and_propagates[where ext = demo_interrupted
        and process_rank = 0 and params = "[(''trainer'', PDict [])]"
        and params_e = "[(''trainer'', PDict [])]" and params_d = "[(''trainer'', PDict [])]"
        and world_size = "PInt 1" and distributed = False and setup_calls = "[]"
        and serialization_dir' = "''out''" and batch_weight_key' = "[]"
        and construction_calls = "Call_TrainModel_from_params [(''trainer'', PDict [])] ''out'' 0 []
             # demo_construction"
        and train_loop = demo_train_loop
        and training_calls = "[Call_trainer_train demo_trainer]"
        and archiving = True and file_friendly_logging = False and recover = False
        and include_package = None and node_rank = 0 and master_addr = "PStr ''127.0.0.1''"
        and master_port = "PInt 29500" and distributed_device_ids = PNone
        and model' = None and extend_vocab = False and embedding_sources_mapping = None]
    by (simp add: fp demo_interrupted_fields ret_def bind_pair_Inr run_def call_def
        demo_loop_fields)
qed

text \<open>
  C7 as stated ("the \<open>KeyboardInterrupt\<close> is re-raised in every case") fails when
  \<open>archive_model\<close> itself raises in the handler: the bare \<open>raise\<close> is not reached, and
  the worker ends with the archiver's exception.
\<close>

theorem keyboard_interrupt_archive_fails_counterexample:
  "train_worker demo_archive_fails 0 [(''trainer'', PDict [])] ''out'' False False None [] 0
     (PStr ''127.0.0.1'') (PInt 29500) (PInt 1) PNone None False None =
   ([Call_prepare_global_logging ''out'' False 0 (PInt 1),
     Call_prepare_environment [(''trainer'', PDict [])],
     Call_TrainModel_from_params [(''trainer'', PDict [])] ''out'' 0 []] @
    demo_construction @
    [Call_trainer_train demo_trainer,
     Call_archive_model ''out''],
    Inl (ExternalError ''No space left on device''))"
proof -
  have fp: "from_params demo_archive_fails [(''trainer'', PDict [])] ''out'' 0 [] =
     (Call_TrainModel_from_params [(''trainer'', PDict [])] ''out'' 0 [] # demo_construction,
      Inr demo_train_loop)"
    by (rule demo_from_params_of) (simp_all add: demo_archive_fails_fields)
  show ?thesis
    unfolding train_worker_def
    by (simp add: bind_call_unit_None bind_call_unit_Some bind_call_Inr bind_lift_Inr bind_ret
        Let_def fp bind_pair_Inr try_except_KeyboardInterrupt_def run_def call_def
        demo_archive_fails_fields demo_loop_fields bind_Inl)
qed

subsection \<open>The beginning of \<open>train_model\<close>\<close>

lemma train_model_calls:
  "fst (train_model ext wext params serialization_dir' file_friendly_logging recover force
          node_rank include_package batch_weight_key' model' extend_vocab
          embedding_sources_mapping) =
   Call_create_serialization_dir params serialization_dir' recover force #
   (case raises ext (Call_create_serialization_dir params serialization_dir' recover force) of
      Some e \<Rightarrow> []
    | None \<Rightarrow>
        Call_Params_to_file params (os_path_join serialization_dir' (CONFIG_NAME ext)) #
        (case raises ext (Call_Params_to_file params
                 (os_path_join serialization_dir' (CONFIG_NAME ext))) of
           Some e \<Rightarrow> []
         | None \<Rightarrow>
             drop 2 (fst (train_model ext wext params serialization_dir' file_friendly_logging
               recover force node_rank include_package batch_weight_key' model' extend_vocab
               embedding_sources_mapping))))"
proof (cases "raises ext (Call_create_serialization_dir params serialization_dir' recover force)")
  case (Some e)
  then show ?thesis
    unfolding train_model_def by (simp add: bind_call_unit_Some)
next
  case None
  note create = this
  show ?thesis
  proof (cases "raises ext (Call_Params_to_file params
                 (os_path_join serialization_dir' (CONFIG_NAME ext)))")
    case (Some e)
    with create show ?thesis
      unfolding train_model_def
      by (simp add: bind_call_unit_Some bind_call_unit_None)
  next
    case None
    with create show ?thesis
      unfolding train_model_def
      by (simp only: bind_call_unit_None option.case fst_apfst list.sel drop_Suc_Cons drop_0
          numeral_2_eq_2)
  qed
qed

text \<open>
  C5. \<open>train_model_from_file\<close> loads the configuration from the file, with the
  overrides, and only then calls \<open>train_model\<close>, to which it hands the loaded
  configuration (no call at all follows a failed load). In \<open>train_model\<close> every call
  that is not one of the two preparation calls (every call of a worker, every
  construction of a lazy object, the training, the archiver) comes after them: the
  creation of the serialization directory is the first call, the writing of the
  configuration into it is the second, and both have returned.
\<close>

theorem preparation_precedes_everything:
  "train_model_from_file ext wext parameter_filename serialization_dir' overrides
     file_friendly_logging recover force node_rank include_package =
   (case Params_from_file ext parameter_filename overrides of
      Inl e \<Rightarrow> ([Call_Params_from_file parameter_filename overrides], Inl e)
    | Inr loaded \<Rightarrow>
        apfst ((#) (Call_Params_from_file parameter_filename overrides))
          (train_model ext wext loaded serialization_dir' file_friendly_logging recover force
             node_rank include_package [] None False None))
   \<and> (\<forall>i < length (fst (train_model ext wext params serialization_dir' file_friendly_logging
                recover force node_rank include_package batch_weight_key' model' extend_vocab
                embedding_sources_mapping)).
        \<not> preparation_call (fst (train_model ext wext params serialization_dir'
              file_friendly_logging recover force node_rank include_package batch_weight_key'
              model' extend_vocab embedding_sources_mapping) ! i) \<longrightarrow>
        2 \<le> i
        \<and> fst (train_model ext wext params serialization_dir' file_friendly_logging
              recover force node_rank include_package batch_weight_key' model' extend_vocab
              embedding_sources_mapping) ! 0 =
            Call_create_serialization_dir params serialization_dir' recover force
        \<and> fst (train_model ext wext params serialization_dir' file_friendly_logging
              recover force node_rank include_package batch_weight_key' model' extend_vocab
              embedding_sources_mapping) ! 1 =
            Call_Params_to_file params (os_path_join serialization_dir' (CONFIG_NAME ext))
        \<and> raises ext (Call_create_serialization_dir params serialization_dir' recover force)
            = None
        \<and> raises ext (Call_Params_to_file params
              (os_path_join serialization_dir' (CONFIG_NAME ext))) = None)"
proof (intro conjI allI impI)
  show "train_model_from_file ext wext parameter_filename serialization_dir' overrides
     file_friendly_logging recover force node_rank include_package =
   (case Params_from_file ext parameter_filename overrides of
      Inl e \<Rightarrow> ([Call_Params_from_file parameter_filename overrides], Inl e)
    | Inr loaded \<Rightarrow>
        apfst ((#) (Call_Params_from_file parameter_filename overrides))
          (train_model ext wext loaded serialization_dir' file_friendly_logging recover force
             node_rank include_package [] None False None))"
    unfolding train_model_from_file_def
    by (cases "Params_from_file ext parameter_filename overrides")
       (simp_all only: bind_call_Inl bind_call_Inr sum.case)
next
  fix i
  let ?t = "fst (train_model ext wext params serialization_dir' file_friendly_logging
                recover force node_rank include_package batch_weight_key' model' extend_vocab
                embedding_sources_mapping)"
  let ?create = "Call_create_serialization_dir params serialization_dir' recover force"
  let ?to_file = "Call_Params_to_file params (os_path_join serialization_dir' (CONFIG_NAME ext))"
  assume i: "i < length ?t" and later: "\<not> preparation_call (?t ! i)"
  have t: "?t = ?create # (case raises ext ?create of Some e \<Rightarrow> []
            | None \<Rightarrow> ?to_file # (case raises ext ?to_file of Some e \<Rightarrow> [] | None \<Rightarrow> drop 2 ?t))"
    by (rule train_model_calls)
  have c: "raises ext ?create = None"
  proof (rule ccontr)
    assume "raises ext ?create \<noteq> None"
    then obtain e where "raises ext ?create = Some e" by auto
    with t have "?t = [?create]" by simp
    with i later show False by simp
  qed
  with t have t1: "?t = ?create # ?to_file #
      (case raises ext ?to_file of Some e \<Rightarrow> [] | None \<Rightarrow> drop 2 ?t)" by simp
  have w: "raises ext ?to_file = None"
  proof (rule ccontr)
    assume "raises ext ?to_file \<noteq> None"
    then obtain e where "raises ext ?to_file = Some e" by auto
    with t1 have "?t = [?create, ?to_file]" by simp
    with i later show False by (auto simp add: less_Suc_eq)
  qed
  have "i \<noteq> 0" "i \<noteq> 1"
    using later t1 by (metis nth_Cons_0 preparation_call.simps(2),
        metis One_nat_def nth_Cons_0 nth_Cons_Suc preparation_call.simps(3))
  then show "2 \<le> i" by simp
  show "?t ! 0 = ?create" using t1 by (metis nth_Cons_0)
  show "?t ! 1 = ?to_file" using t1 by (metis One_nat_def nth_Cons_0 nth_Cons_Suc)
  show "raises ext ?create = None" by (rule c)
  show "raises ext ?to_file = None" by (rule w)
qed

lemma demo_worker_single:
  "train_worker demo_externals 0 params ''out'' False False None [] 0
     (PStr ''127.0.0.1'') (PInt 29500) (PInt 1) PNone None False None =
   ([Call_prepare_global_logging ''out'' False 0 (PInt 1),
     Call_prepare_environment params,
     Call_TrainModel_from_params params ''out'' 0 []] @
    demo_construction @
    [Call_trainer_train demo_trainer,
     Call_dump_metrics ''out/metrics.json'' [(''best_epoch'', PInt 0)]],
    Inr (Some demo_model))"
  unfolding train_worker_def
  by (simp add: bind_call_unit_None bind_call_Inr bind_lift_Inr bind_ret Let_def
      demo_from_params demo_finish bind_pair_Inr try_except_KeyboardInterrupt_def run_def
      call_def ret_def demo_fields demo_loop_fields)

lemma delete_absent: "map_of d key = None \<Longrightarrow> AList.delete key d = d"
  by (induction d) (auto split: if_splits)

lemma demo_train_model_single:
  "map_of params ''distributed'' = None \<Longrightarrow>
   train_model demo_externals wext params ''out'' False False False 0 None [] None False None =
   ([Call_create_serialization_dir params ''out'' False False,
     Call_Params_to_file params ''out/config.json'',
     Call_prepare_global_logging ''out'' False 0 (PInt 1),
     Call_prepare_environment params,
     Call_TrainModel_from_params params ''out'' 0 []] @
    demo_construction @
    [Call_trainer_train demo_trainer,
     Call_dump_metrics ''out/metrics.json'' [(''best_epoch'', PInt 0)],
     Call_archive_model ''out''],
    Inr (Some demo_model))"
  unfolding train_model_def
  by (simp add: bind_call_unit_None demo_fields dict_pop_def demo_worker_single bind_pair_Inr
      os_path_join_def ret_def)

theorem preparation_precedes_everything_witness:
  "train_model_from_file demo_externals (\<lambda>i. demo_externals) ''experiment.jsonnet'' ''out'' []
     False False False 0 None =
   ([Call_Params_from_file ''experiment.jsonnet'' [],
     Call_create_serialization_dir [(''trainer'', PDict [])] ''out'' False False,
     Call_Params_to_file [(''trainer'', PDict [])] ''out/config.json'',
     Call_prepare_global_logging ''out'' False 0 (PInt 1),
     Call_prepare_environment [(''trainer'', PDict [])],
     Call_TrainModel_from_params [(''trainer'', PDict [])] ''out'' 0 []] @
    demo_construction @
    [Call_trainer_train demo_trainer,
     Call_dump_metrics ''out/metrics.json'' [(''best_epoch'', PInt 0)],
     Call_archive_model ''out''],
    Inr (Some demo_model))
   \<and> (2::nat) \<le> 2
   \<and> raises demo_externals
         (Call_create_serialization_dir [(''trainer'', PDict [])] ''out'' False False) = None
   \<and> raises demo_externals
         (Call_Params_to_file [(''trainer'', PDict [])]
            (os_path_join ''out'' (CONFIG_NAME demo_externals))) = None"
  using preparation_precedes_everything[where ext = demo_externals
      and wext = "\<lambda>i. demo_externals" and parameter_filename = "''experiment.jsonnet''"
      and serialization_dir' = "''out''" and overrides = "[]"
      and file_friendly_logging = False and recover = False and force = False
      and node_rank = 0 and include_package = None and params = "[(''trainer'', PDict [])]"
      and batch_weight_key' = "[]" and model' = None and extend_vocab = False
      and embedding_sources_mapping = None, THEN conjunct1]
    preparation_precedes_everything[where ext = demo_externals
      and wext = "\<lambda>i. demo_externals" and parameter_filename = "''experiment.jsonnet''"
      and serialization_dir' = "''out''" and overrides = "[]"
      and file_friendly_logging = False and recover = False and force = False
      and node_rank = 0 and include_package = None and params = "[(''trainer'', PDict [])]"
      and batch_weight_key' = "[]" and model' = None and extend_vocab = False
      and embedding_sources_mapping = None, THEN conjunct2, rule_format, of 2]
  by (simp add: demo_train_model_single demo_fields)

subsection \<open>The distributed branch of \<open>train_model\<close>\<close>

lemma fst_call_unit: "fst (call_unit ext ev) = [ev]"
  by (simp add: call_unit_def call_def)

lemma fst_bind_call_unit:
  "fst (bind (call_unit ext ev) f) =
     ev # (case raises ext ev of None \<Rightarrow> fst (f ()) | Some e \<Rightarrow> [])"
  by (cases "raises ext ev") (simp_all add: bind_call_unit_None bind_call_unit_Some)

lemma map_of_delete_other: "key \<noteq> key' \<Longrightarrow> map_of (AList.delete key d) key' = map_of d key'"
  by (simp add: AList.delete_conv')

lemma dict_pop_Some: "map_of d key = Some v \<Longrightarrow> dict_pop d key dflt = (v, AList.delete key d)"
  by (simp add: dict_pop_def)

lemma dict_pop_None: "map_of d key = None \<Longrightarrow> dict_pop d key dflt = (dflt, d)"
  by (simp add: dict_pop_def)

lemma py_pop_dict:
  "py_pop (PDict d) key dflt =
     Inr (case map_of d key of None \<Rightarrow> dflt | Some v \<Rightarrow> v, PDict (AList.delete key d))"
  by (simp add: dict_pop_def delete_absent split: option.splits)

text \<open>
  C10, as the code has it. When the value under \<open>"distributed"\<close> is a dictionary and
  its \<open>num_nodes\<close> (1 when absent) is an integer, \<open>train_model\<close> raises the
  \<open>ConfigurationError\<close> if \<open>cuda_devices\<close> is not a list of more than one device and
  \<open>num_nodes\<close> is not greater than 1; its only calls are then the two preparation
  calls, so no worker is spawned and no process group is initialized. Otherwise the
  check passes and the next call is \<open>check_for_gpu\<close>.
\<close>

theorem distributed_needs_devices_or_nodes:
  assumes create: "raises ext (Call_create_serialization_dir params serialization_dir' recover
                     force) = None"
    and to_file: "raises ext (Call_Params_to_file params
                     (os_path_join serialization_dir' (CONFIG_NAME ext))) = None"
    and dist: "map_of params ''distributed'' = Some (PDict d)"
    and devs: "device_ids = (case map_of d ''cuda_devices'' of None \<Rightarrow> PNone | Some v \<Rightarrow> v)"
    and nodes: "(case map_of d ''num_nodes'' of None \<Rightarrow> PInt 1 | Some v \<Rightarrow> v) = PInt num_nodes"
  shows "(\<not> is_list_longer_than_1 device_ids \<and> num_nodes \<le> 1 \<longrightarrow>
            train_model ext wext params serialization_dir' file_friendly_logging recover force
              node_rank include_package batch_weight_key' model' extend_vocab
              embedding_sources_mapping =
            ([Call_create_serialization_dir params serialization_dir' recover force,
              Call_Params_to_file params (os_path_join serialization_dir' (CONFIG_NAME ext))],
             Inl (ConfigurationError
               ''Multiple cuda devices/nodes need to be configured to run distributed training.'')))
       \<and> (is_list_longer_than_1 device_ids \<or> num_nodes > 1 \<longrightarrow>
            take 3 (fst (train_model ext wext params serialization_dir' file_friendly_logging
              recover force node_rank include_package batch_weight_key' model' extend_vocab
              embedding_sources_mapping)) =
            [Call_create_serialization_dir params serialization_dir' recover force,
             Call_Params_to_file params (os_path_join serialization_dir' (CONFIG_NAME ext)),
             Call_check_for_gpu device_ids])"
proof (intro conjI impI)
  assume "\<not> is_list_longer_than_1 device_ids \<and> num_nodes \<le> 1"
  then show "train_model ext wext params serialization_dir' file_friendly_logging recover force
              node_rank include_package batch_weight_key' model' extend_vocab
              embedding_sources_mapping =
            ([Call_create_serialization_dir params serialization_dir' recover force,
              Call_Params_to_file params (os_path_join serialization_dir' (CONFIG_NAME ext))],
             Inl (ConfigurationError
               ''Multiple cuda devices/nodes need to be configured to run distributed training.''))"
    unfolding train_model_def
    using create to_file dist nodes
    by (simp add: bind_call_unit_None dict_pop_Some py_pop_dict bind_lift_Inr devs[symmetric]
        map_of_delete_other Let_def bind_raise del: py_pop.simps)
       (simp add: raise_def)
next
  assume "is_list_longer_than_1 device_ids \<or> num_nodes > 1"
  then show "take 3 (fst (train_model ext wext params serialization_dir' file_friendly_logging
              recover force node_rank include_package batch_weight_key' model' extend_vocab
              embedding_sources_mapping)) =
            [Call_create_serialization_dir params serialization_dir' recover force,
             Call_Params_to_file params (os_path_join serialization_dir' (CONFIG_NAME ext)),
             Call_check_for_gpu device_ids]"
    unfolding train_model_def
    using create to_file dist nodes
    by (auto simp add: bind_call_unit_None dict_pop_Some py_pop_dict bind_lift_Inr
        devs[symmetric] map_of_delete_other Let_def bind_ret fst_bind_call_unit
        simp del: py_pop.simps)
qed

theorem distributed_needs_devices_or_nodes_witness:
  "train_model demo_externals (\<lambda>i. demo_externals)
     [(''distributed'', PDict [(''cuda_devices'', PList [PInt 0])]), (''trainer'', PDict [])]
     ''out'' False False False 0 None [] None False None =
   ([Call_create_serialization_dir
       [(''distributed'', PDict [(''cuda_devices'', PList [PInt 0])]), (''trainer'', PDict [])]
       ''out'' False False,
     Call_Params_to_file
       [(''distributed'', PDict [(''cuda_devices'', PList [PInt 0])]), (''trainer'', PDict [])]
       ''out/config.json''],
    Inl (ConfigurationError
      ''Multiple cuda devices/nodes need to be configured to run distributed training.''))
   \<and> take 3 (fst (train_model demo_externals (\<lambda>i. demo_externals)
     [(''distributed'', PDict [(''cuda_devices'', PList [PInt 0, PInt 1])]),
      (''trainer'', PDict [])]
     ''out'' False False False 0 None [] None False None)) =
   [Call_create_serialization_dir
      [(''distributed'', PDict [(''cuda_devices'', PList [PInt 0, PInt 1])]),
       (''trainer'', PDict [])] ''out'' False False,
    Call_Params_to_file
      [(''distributed'', PDict [(''cuda_devices'', PList [PInt 0, PInt 1])]),
       (''trainer'', PDict [])] ''out/config.json'',
    Call_check_for_gpu (PList [PInt 0, PInt 1])]"
  using distributed_needs_devices_or_nodes[where ext = demo_externals
      and params = "[(''distributed'', PDict [(''cuda_devices'', PList [PInt 0])]),
                     (''trainer'', PDict [])]"
      and d = "[(''cuda_devices'', PList [PInt 0])]" and device_ids = "PList [PInt 0]"
      and num_nodes = 1 and serialization_dir' = "''out''" and recover = False and force = False
      and wext = "\<lambda>i. demo_externals" and file_friendly_logging = False and node_rank = 0
      and include_package = None and batch_weight_key' = "[]" and model' = None
      and extend_vocab = False and embedding_sources_mapping = None, THEN conjunct1]
    distributed_needs_devices_or_nodes[where ext = demo_externals
      and params = "[(''distributed'', PDict [(''cuda_devices'', PList [PInt 0, PInt 1])]),
                     (''trainer'', PDict [])]"
      and d = "[(''cuda_devices'', PList [PInt 0, PInt 1])]"
      and device_ids = "PList [PInt 0, PInt 1]"
      and num_nodes = 1 and serialization_dir' = "''out''" and recover = False and force = False
      and wext = "\<lambda>i. demo_externals" and file_friendly_logging = False and node_rank = 0
      and include_package = None and batch_weight_key' = "[]" and model' = None
      and extend_vocab = False and embedding_sources_mapping = None, THEN conjunct2]
  by (simp add: demo_fields os_path_join_def)

lemma demo_train_model_null:
  "map_of params ''distributed'' = Some PNone \<Longrightarrow>
   train_model demo_externals wext params ''out'' False False False 0 None [] None False None =
   ([Call_create_serialization_dir params ''out'' False False,
     Call_Params_to_file params ''out/config.json'',
     Call_prepare_global_logging ''out'' False 0 (PInt 1),
     Call_prepare_environment (AList.delete ''distributed'' params),
     Call_TrainModel_from_params (AList.delete ''distributed'' params) ''out'' 0 []] @
    demo_construction @
    [Call_trainer_train demo_trainer,
     Call_dump_metrics ''out/metrics.json'' [(''best_epoch'', PInt 0)],
     Call_archive_model ''out''],
    Inr (Some demo_model))"
  unfolding train_model_def
  by (simp add: bind_call_unit_None demo_fields dict_pop_Some demo_worker_single bind_pair_Inr
      os_path_join_def ret_def)

text \<open>
  C10 as stated ("when the params contain a \<open>"distributed"\<close> key") fails for a key
  whose value is \<open>null\<close>: \<open>pop\<close> gives \<open>None\<close>, the single process branch runs, and no
  \<open>ConfigurationError\<close> is raised although there is neither a list of devices nor a
  number of nodes.
\<close>

theorem distributed_null_no_error_counterexample:
  "map_of [(''distributed'', PNone)] ''distributed'' = Some PNone
   \<and> train_model demo_externals (\<lambda>i. demo_externals) [(''distributed'', PNone)]
       ''out'' False False False 0 None [] None False None =
     ([Call_create_serialization_dir [(''distributed'', PNone)] ''out'' False False,
       Call_Params_to_file [(''distributed'', PNone)] ''out/config.json'',
       Call_prepare_global_logging ''out'' False 0 (PInt 1),
       Call_prepare_environment [],
       Call_TrainModel_from_params [] ''out'' 0 []] @
      demo_construction @
      [Call_trainer_train demo_trainer,
       Call_dump_metrics ''out/metrics.json'' [(''best_epoch'', PInt 0)],
       Call_archive_model ''out''],
      Inr (Some demo_model))"
  by (simp add: demo_train_model_null)

subsection \<open>Spawning the workers\<close>

lemma fst_mp_spawn:
  "fst (mp_spawn ext fn nprocs) =
     Call_mp_spawn nprocs # concat (map (\<lambda>i. map (InWorker i) (fst (fn i))) [0..<nprocs])"
proof -
  have h: "map (\<lambda>i. map (InWorker i) (fst (map fn [0..<nprocs] ! i))) [0..<nprocs] =
        map (\<lambda>i. map (InWorker i) (fst (fn i))) [0..<nprocs]"
    by (rule map_cong) simp_all
  show ?thesis
    unfolding mp_spawn_def Let_def fst_conv h by (rule refl)
qed

lemma snd_mp_spawn:
  "snd (mp_spawn ext fn nprocs) =
     (case mp_spawn_join ext (map (\<lambda>i. snd (fn i)) [0..<nprocs]) of
        None \<Rightarrow> Inr ()
      | Some e \<Rightarrow> Inl e)"
  by (simp add: mp_spawn_def Let_def comp_def)

lemma train_model_distributed:
  assumes create: "raises ext (Call_create_serialization_dir params serialization_dir' recover
                     force) = None"
    and to_file: "raises ext (Call_Params_to_file params
                     (os_path_join serialization_dir' (CONFIG_NAME ext))) = None"
    and dist: "map_of params ''distributed'' = Some (PDict d)"
    and devs: "device_ids = (case map_of d ''cuda_devices'' of None \<Rightarrow> PNone | Some v \<Rightarrow> v)"
    and nodes: "num_nodes = (case map_of d ''num_nodes'' of None \<Rightarrow> PInt 1 | Some v \<Rightarrow> v)"
    and chk: "is_list_longer_than_1 device_ids \<or> py_gt num_nodes 1 = Inr True"
    and gpu: "raises ext (Call_check_for_gpu device_ids) = None"
    and addr: "master_addr =
                 (case map_of d ''master_address'' of None \<Rightarrow> PStr ''127.0.0.1'' | Some v \<Rightarrow> v)"
    and port: "master_port =
                 (case map_of d ''master_port'' of None \<Rightarrow> PInt 29500 | Some v \<Rightarrow> v)"
    and len: "py_len device_ids = Inr num_procs"
    and mul: "py_mul num_nodes num_procs = Inr world_size"
    and voc: "make_vocab_from_params ext (AList.delete ''distributed'' params)
                serialization_dir' = Inr vocab'"
    and pv: "params_v = AList.update ''vocabulary''
               (PDict [(''type'', PStr ''from_files''),
                       (''directory'', PStr (os_path_join serialization_dir' ''vocabulary'')),
                       (''padding_token'', PStr (padding_token vocab')),
                       (''oov_token'', PStr (oov_token vocab'))])
               (AList.delete ''distributed'' params)"
  shows "train_model ext wext params serialization_dir' file_friendly_logging recover force
           node_rank include_package batch_weight_key' model' extend_vocab
           embedding_sources_mapping =
         apfst ((@) [Call_create_serialization_dir params serialization_dir' recover force,
                     Call_Params_to_file params
                       (os_path_join serialization_dir' (CONFIG_NAME ext)),
                     Call_check_for_gpu device_ids,
                     Call_make_vocab_from_params (AList.delete ''distributed'' params)
                       serialization_dir'])
           (bind (mp_spawn ext
                    (\<lambda>i. train_worker (wext i) (int i) params_v serialization_dir'
                           file_friendly_logging recover include_package batch_weight_key'
                           node_rank master_addr master_port world_size device_ids model'
                           extend_vocab embedding_sources_mapping)
                    num_procs) (\<lambda>_.
            bind (call_unit ext (Call_archive_model serialization_dir')) (\<lambda>_.
            bind (call (Call_Model_load params_v serialization_dir')
                       (Model_load ext params_v serialization_dir')) (\<lambda>loaded.
            ret (Some loaded)))))"
proof -
  have c: "(if is_list_longer_than_1 device_ids then ret True else lift (py_gt num_nodes 1)) =
           ([], Inr True)"
    using chk by (auto simp: ret_def lift_def)
  show ?thesis
    unfolding train_model_def
    using create to_file dist gpu len mul voc
    by (simp add: bind_call_unit_None dict_pop_Some py_pop_dict bind_lift_Inr devs[symmetric]
        nodes[symmetric] addr[symmetric] port[symmetric] pv[symmetric]
        map_of_delete_other Let_def c bind_pair_Inr bind_call_Inr
        del: py_pop.simps)
       (simp add: apfst_def map_prod_def split: prod.splits)
qed

text \<open>
  C2. In the distributed branch (the value under \<open>"distributed"\<close> is a dictionary that
  passes the check, and the collaborators called so far return), \<open>train_model\<close> calls
  \<open>make_vocab_from_params\<close> with a copy of the configuration and the serialization
  directory, which constructs the vocabulary and writes it there, and only then
  \<open>mp.spawn\<close>: the calls of all workers come after both. The configuration every
  worker is started with has, under \<open>"vocabulary"\<close>, the entry of type
  \<open>from_files\<close> whose directory is \<open>vocabulary\<close> in the serialization directory, with
  the padding and out-of-vocabulary tokens of the vocabulary just made.
\<close>

theorem vocabulary_before_spawn:
  assumes create: "raises ext (Call_create_serialization_dir params serialization_dir' recover
                     force) = None"
    and to_file: "raises ext (Call_Params_to_file params
                     (os_path_join serialization_dir' (CONFIG_NAME ext))) = None"
    and dist: "map_of params ''distributed'' = Some (PDict d)"
    and devs: "device_ids = (case map_of d ''cuda_devices'' of None \<Rightarrow> PNone | Some v \<Rightarrow> v)"
    and nodes: "num_nodes = (case map_of d ''num_nodes'' of None \<Rightarrow> PInt 1 | Some v \<Rightarrow> v)"
    and chk: "is_list_longer_than_1 device_ids \<or> py_gt num_nodes 1 = Inr True"
    and gpu: "raises ext (Call_check_for_gpu device_ids) = None"
    and addr: "master_addr =
                 (case map_of d ''master_address'' of None \<Rightarrow> PStr ''127.0.0.1'' | Some v \<Rightarrow> v)"
    and port: "master_port =
                 (case map_of d ''master_port'' of None \<Rightarrow> PInt 29500 | Some v \<Rightarrow> v)"
    and len: "py_len device_ids = Inr num_procs"
    and mul: "py_mul num_nodes num_procs = Inr world_size"
    and voc: "make_vocab_from_params ext (AList.delete ''distributed'' params)
                serialization_dir' = Inr vocab'"
    and pv: "params_v = AList.update ''vocabulary''
               (PDict [(''type'', PStr ''from_files''),
                       (''directory'', PStr (os_path_join serialization_dir' ''vocabulary'')),
                       (''padding_token'', PStr (padding_token vocab')),
                       (''oov_token'', PStr (oov_token vocab'))])
               (AList.delete ''distributed'' params)"
  shows "(\<exists>rest.
           fst (train_model ext wext params serialization_dir' file_friendly_logging recover
                  force node_rank include_package batch_weight_key' model' extend_vocab
                  embedding_sources_mapping) =
           [Call_create_serialization_dir params serialization_dir' recover force,
            Call_Params_to_file params (os_path_join serialization_dir' (CONFIG_NAME ext)),
            Call_check_for_gpu device_ids,
            Call_make_vocab_from_params (AList.delete ''distributed'' params) serialization_dir',
            Call_mp_spawn num_procs] @
           concat (map (\<lambda>i. map (InWorker i)
                     (fst (train_worker (wext i) (int i) params_v serialization_dir'
                             file_friendly_logging recover include_package batch_weight_key'
                             node_rank master_addr master_port world_size device_ids model'
                             extend_vocab embedding_sources_mapping)))
                   [0..<num_procs]) @
           rest)
       \<and> map_of params_v ''vocabulary'' =
           Some (PDict [(''type'', PStr ''from_files''),
                        (''directory'', PStr (os_path_join serialization_dir' ''vocabulary'')),
                        (''padding_token'', PStr (padding_token vocab')),
                        (''oov_token'', PStr (oov_token vocab'))])"
proof
  show "\<exists>rest.
           fst (train_model ext wext params serialization_dir' file_friendly_logging recover
                  force node_rank include_package batch_weight_key' model' extend_vocab
                  embedding_sources_mapping) =
           [Call_create_serialization_dir params serialization_dir' recover force,
            Call_Params_to_file params (os_path_join serialization_dir' (CONFIG_NAME ext)),
            Call_check_for_gpu device_ids,
            Call_make_vocab_from_params (AList.delete ''distributed'' params) serialization_dir',
            Call_mp_spawn num_procs] @
           concat (map (\<lambda>i. map (InWorker i)
                     (fst (train_worker (wext i) (int i) params_v serialization_dir'
                             file_friendly_logging recover include_package batch_weight_key'
                             node_rank master_addr master_port world_size device_ids model'
                             extend_vocab embedding_sources_mapping)))
                   [0..<num_procs]) @
           rest"
    unfolding train_model_distributed[OF create to_file dist devs nodes chk gpu addr port len
        mul voc pv]
    by (simp add: fst_bind fst_mp_spawn)
  show "map_of params_v ''vocabulary'' =
           Some (PDict [(''type'', PStr ''from_files''),
                        (''directory'', PStr (os_path_join serialization_dir' ''vocabulary'')),
                        (''padding_token'', PStr (padding_token vocab')),
                        (''oov_token'', PStr (oov_token vocab'))])"
    unfolding pv by (simp add: AList.update_conv')
qed

theorem vocabulary_before_spawn_witness:
  "take 5 (fst (train_model demo_externals (\<lambda>i. demo_externals) demo_distributed_params ''out''
             False False False 0 None [] None False None)) =
   [Call_create_serialization_dir demo_distributed_params ''out'' False False,
    Call_Params_to_file demo_distributed_params ''out/config.json'',
    Call_check_for_gpu (PList [PInt 0, PInt 1]),
    Call_make_vocab_from_params [(''trainer'', PDict [])] ''out'',
    Call_mp_spawn 2]
   \<and> map_of demo_worker_params ''vocabulary'' =
     Some (PDict [(''type'', PStr ''from_files''),
                  (''directory'', PStr ''out/vocabulary''),
                  (''padding_token'', PStr ''@@PADDING@@''),
                  (''oov_token'', PStr ''@@UNKNOWN@@'')])"
proof -
  have "(\<exists>rest.
           fst (train_model demo_externals (\<lambda>i. demo_externals) demo_distributed_params ''out''
                  False False False 0 None [] None False None) =
           [Call_create_serialization_dir demo_distributed_params ''out'' False False,
            Call_Params_to_file demo_distributed_params
              (os_path_join ''out'' (CONFIG_NAME demo_externals)),
            Call_check_for_gpu (PList [PInt 0, PInt 1]),
            Call_make_vocab_from_params (AList.delete ''distributed'' demo_distributed_params)
              ''out'',
            Call_mp_spawn 2] @
           concat (map (\<lambda>i. map (InWorker i)
                     (fst (train_worker demo_externals (int i) demo_worker_params ''out''
                             False False None [] 0 (PStr ''127.0.0.1'') (PInt 29500) (PInt 2)
                             (PList [PInt 0, PInt 1]) None False None)))
                   [0..<2]) @
           rest)
       \<and> map_of demo_worker_params ''vocabulary'' =
           Some (PDict [(''type'', PStr ''from_files''),
                        (''directory'', PStr (os_path_join ''out'' ''vocabulary'')),
                        (''padding_token'', PStr (padding_token demo_vocabulary)),
                        (''oov_token'', PStr (oov_token demo_vocabulary))])"
    by (rule vocabulary_before_spawn[where d = "[(''cuda_devices'', PList [PInt 0, PInt 1])]"
          and num_nodes = "PInt 1"])
       (simp_all add: demo_fields demo_distributed_params_def demo_worker_params_def
          demo_vocabulary_def os_path_join_def)
  then show ?thesis
    by (auto simp add: demo_fields demo_distributed_params_def os_path_join_def
        demo_vocabulary_def)
qed

subsection \<open>Single process or spawned workers\<close>

lemma train_worker_undistributed_returns_model:
  assumes "train_worker ext process_rank params serialization_dir' file_friendly_logging recover
             include_package batch_weight_key' node_rank master_addr master_port (PInt 1)
             distributed_device_ids model' extend_vocab embedding_sources_mapping =
           (calls, Inr trained)"
  shows "trained \<noteq> None"
proof -
  have "snd (train_worker ext process_rank params serialization_dir' file_friendly_logging recover
             include_package batch_weight_key' node_rank master_addr master_port (PInt 1)
             distributed_device_ids model' extend_vocab embedding_sources_mapping) = Inr trained"
    using assms by simp
  then show ?thesis
    unfolding train_worker_def
    by (auto simp add: snd_bind Let_def ret_def lift_def split: sum.splits if_splits)
qed

lemma demo_worker_distributed:
  assumes "i < 2"
  shows "train_worker demo_externals (int i) demo_worker_params ''out'' False False None [] 0
     (PStr ''127.0.0.1'') (PInt 29500) (PInt 2) (PList [PInt 0, PInt 1]) None False None =
   (demo_worker_calls i, Inr None)"
proof -
  from assms have i: "i = 0 \<or> i = 1" by auto
  have gpu: "py_getitem (PList [PInt 0, PInt 1]) (int i) = Inr (PInt (int i))"
    using i by (auto simp: seq_index_def)
  have s: "distributed_setup demo_externals (int i) demo_worker_params None 0
             (PStr ''127.0.0.1'') (PInt 29500) (PInt 2) (PList [PInt 0, PInt 1]) =
           ([Call_environ_setitem ''ALLENNLP_PROCS_PER_NODE'' 2,
             Call_Params_setitem [''trainer'', ''cuda_device''] (PInt (int i)),
             Call_Params_setitem [''trainer'', ''world_size''] (PInt 2),
             Call_Params_setitem [''trainer'', ''distributed''] (PBool True),
             Call_cuda_set_device (int i),
             Call_init_process_group ''nccl'' (PStr ''127.0.0.1'') (PInt 29500) (PInt 2) (int i)],
            Inr (AList.update ''trainer''
                   (PDict [(''cuda_device'', PInt (int i)), (''world_size'', PInt 2),
                           (''distributed'', PBool True)]) demo_worker_params))"
    using distributed_setup_ok[where ext = demo_externals and include_package = None
        and distributed_device_ids = "PList [PInt 0, PInt 1]" and n = 2
        and process_rank = "int i" and gpu_id = "PInt (int i)" and params = demo_worker_params
        and t = "[]" and device = "int i" and master_addr = "PStr ''127.0.0.1''"
        and master_port = "PInt 29500" and world_size = "PInt 2" and node_rank = 0, OF _ _ gpu]
    by (simp add: demo_fields demo_worker_params_def)
  show ?thesis
    unfolding demo_worker_calls_def
    using i
    by (subst train_worker_after_setup[where ext = demo_externals
          and params_e = demo_worker_params and distributed = True,
          OF _ _ _ _ demo_from_params])
       (auto simp add: demo_fields s bind_call_unit_None bind_ret run_def call_def
          bind_pair_Inr try_except_KeyboardInterrupt_def demo_loop_fields demo_finish ret_def)
qed

text \<open>
  C4, as the code has it. When the collaborators return: if the configuration has no
  \<open>"distributed"\<close> key, or has it with the value \<open>null\<close>, \<open>train_model\<close> runs one worker
  in its own process, with \<open>process_rank\<close> 0 and the defaults of a single process,
  archives the model after it, and returns what the worker returned, which is a model.
  If the value under \<open>"distributed"\<close> is a dictionary that passes the check, it spawns
  as many workers as \<open>cuda_devices\<close> has entries, archives the model after all of them,
  and returns \<open>Model.load(params, serialization_dir)\<close>.
\<close>

theorem train_model_single_or_spawned:
  assumes create: "raises ext (Call_create_serialization_dir params serialization_dir' recover
                     force) = None"
    and to_file: "raises ext (Call_Params_to_file params
                     (os_path_join serialization_dir' (CONFIG_NAME ext))) = None"
    and archive: "raises ext (Call_archive_model serialization_dir') = None"
  shows "((map_of params ''distributed'' = None \<or> map_of params ''distributed'' = Some PNone)
          \<and> train_worker ext 0 (AList.delete ''distributed'' params) serialization_dir'
                file_friendly_logging recover include_package batch_weight_key' 0
                (PStr ''127.0.0.1'') (PInt 29500) (PInt 1) PNone model' extend_vocab
                embedding_sources_mapping = (worker_calls, Inr trained) \<longrightarrow>
          train_model ext wext params serialization_dir' file_friendly_logging recover force
            node_rank include_package batch_weight_key' model' extend_vocab
            embedding_sources_mapping =
          ([Call_create_serialization_dir params serialization_dir' recover force,
            Call_Params_to_file params (os_path_join serialization_dir' (CONFIG_NAME ext))] @
           worker_calls @ [Call_archive_model serialization_dir'],
           Inr trained)
          \<and> trained \<noteq> None)
       \<and> (map_of params ''distributed'' = Some (PDict d)
          \<and> device_ids = (case map_of d ''cuda_devices'' of None \<Rightarrow> PNone | Some v \<Rightarrow> v)
          \<and> num_nodes = (case map_of d ''num_nodes'' of None \<Rightarrow> PInt 1 | Some v \<Rightarrow> v)
          \<and> (is_list_longer_than_1 device_ids \<or> py_gt num_nodes 1 = Inr True)
          \<and> raises ext (Call_check_for_gpu device_ids) = None
          \<and> master_addr =
              (case map_of d ''master_address'' of None \<Rightarrow> PStr ''127.0.0.1'' | Some v \<Rightarrow> v)
          \<and> master_port =
              (case map_of d ''master_port'' of None \<Rightarrow> PInt 29500 | Some v \<Rightarrow> v)
          \<and> py_len device_ids = Inr num_procs
          \<and> py_mul num_nodes num_procs = Inr world_size
          \<and> make_vocab_from_params ext (AList.delete ''distributed'' params)
                serialization_dir' = Inr vocab'
          \<and> params_v = AList.update ''vocabulary''
               (PDict [(''type'', PStr ''from_files''),
                       (''directory'', PStr (os_path_join serialization_dir' ''vocabulary'')),
                       (''padding_token'', PStr (padding_token vocab')),
                       (''oov_token'', PStr (oov_token vocab'))])
               (AList.delete ''distributed'' params)
          \<and> mp_spawn_join ext
                (map (\<lambda>i. snd (train_worker (wext i) (int i) params_v serialization_dir'
                                 file_friendly_logging recover include_package
                                 batch_weight_key' node_rank master_addr master_port
                                 world_size device_ids model' extend_vocab
                                 embedding_sources_mapping))
                   [0..<num_procs]) = None
          \<and> Model_load ext params_v serialization_dir' = Inr loaded \<longrightarrow>
          train_model ext wext params serialization_dir' file_friendly_logging recover force
            node_rank include_package batch_weight_key' model' extend_vocab
            embedding_sources_mapping =
          ([Call_create_serialization_dir params serialization_dir' recover force,
            Call_Params_to_file params (os_path_join serialization_dir' (CONFIG_NAME ext)),
            Call_check_for_gpu device_ids,
            Call_make_vocab_from_params (AList.delete ''distributed'' params) serialization_dir',
            Call_mp_spawn num_procs] @
           concat (map (\<lambda>i. map (InWorker i)
                     (fst (train_worker (wext i) (int i) params_v serialization_dir'
                             file_friendly_logging recover include_package batch_weight_key'
                             node_rank master_addr master_port world_size device_ids model'
                             extend_vocab embedding_sources_mapping)))
                   [0..<num_procs]) @
           [Call_archive_model serialization_dir',
            Call_Model_load params_v serialization_dir'],
           Inr (Some loaded)))"
proof (intro conjI impI)
  assume a: "(map_of params ''distributed'' = None \<or> map_of params ''distributed'' = Some PNone)
          \<and> train_worker ext 0 (AList.delete ''distributed'' params) serialization_dir'
                file_friendly_logging recover include_package batch_weight_key' 0
                (PStr ''127.0.0.1'') (PInt 29500) (PInt 1) PNone model' extend_vocab
                embedding_sources_mapping = (worker_calls, Inr trained)"
  then have w: "train_worker ext 0 (AList.delete ''distributed'' params) serialization_dir'
                file_friendly_logging recover include_package batch_weight_key' 0
                (PStr ''127.0.0.1'') (PInt 29500) (PInt 1) PNone model' extend_vocab
                embedding_sources_mapping = (worker_calls, Inr trained)"
    by simp
  from a have p: "dict_pop params ''distributed'' PNone =
                    (PNone, AList.delete ''distributed'' params)"
    by (auto simp add: dict_pop_def delete_absent)
  show "train_model ext wext params serialization_dir' file_friendly_logging recover force
            node_rank include_package batch_weight_key' model' extend_vocab
            embedding_sources_mapping =
          ([Call_create_serialization_dir params serialization_dir' recover force,
            Call_Params_to_file params (os_path_join serialization_dir' (CONFIG_NAME ext))] @
           worker_calls @ [Call_archive_model serialization_dir'],
           Inr trained)"
    unfolding train_model_def
    using create to_file archive
    by (simp add: bind_call_unit_None p w bind_pair_Inr ret_def)
  show "trained \<noteq> None"
    using w by (rule train_worker_undistributed_returns_model)
next
  assume a: "map_of params ''distributed'' = Some (PDict d)
          \<and> device_ids = (case map_of d ''cuda_devices'' of None \<Rightarrow> PNone | Some v \<Rightarrow> v)
          \<and> num_nodes = (case map_of d ''num_nodes'' of None \<Rightarrow> PInt 1 | Some v \<Rightarrow> v)
          \<and> (is_list_longer_than_1 device_ids \<or> py_gt num_nodes 1 = Inr True)
          \<and> raises ext (Call_check_for_gpu device_ids) = None
          \<and> master_addr =
              (case map_of d ''master_address'' of None \<Rightarrow> PStr ''127.0.0.1'' | Some v \<Rightarrow> v)
          \<and> master_port =
              (case map_of d ''master_port'' of None \<Rightarrow> PInt 29500 | Some v \<Rightarrow> v)
          \<and> py_len device_ids = Inr num_procs
          \<and> py_mul num_nodes num_procs = Inr world_size
          \<and> make_vocab_from_params ext (AList.delete ''distributed'' params)
                serialization_dir' = Inr vocab'
          \<and> params_v = AList.update ''vocabulary''
               (PDict [(''type'', PStr ''from_files''),
                       (''directory'', PStr (os_path_join serialization_dir' ''vocabulary'')),
                       (''padding_token'', PStr (padding_token vocab')),
                       (''oov_token'', PStr (oov_token vocab'))])
               (AList.delete ''distributed'' params)
          \<and> mp_spawn_join ext
                (map (\<lambda>i. snd (train_worker (wext i) (int i) params_v serialization_dir'
                                 file_friendly_logging recover include_package
                                 batch_weight_key' node_rank master_addr master_port
                                 world_size device_ids model' extend_vocab
                                 embedding_sources_mapping))
                   [0..<num_procs]) = None
          \<and> Model_load ext params_v serialization_dir' = Inr loaded"
  have t: "train_model ext wext params serialization_dir' file_friendly_logging recover force
            node_rank include_package batch_weight_key' model' extend_vocab
            embedding_sources_mapping =
         apfst ((@) [Call_create_serialization_dir params serialization_dir' recover force,
                     Call_Params_to_file params
                       (os_path_join serialization_dir' (CONFIG_NAME ext)),
                     Call_check_for_gpu device_ids,
                     Call_make_vocab_from_params (AList.delete ''distributed'' params)
                       serialization_dir'])
           (bind (mp_spawn ext
                    (\<lambda>i. train_worker (wext i) (int i) params_v serialization_dir'
                           file_friendly_logging recover include_package batch_weight_key'
                           node_rank master_addr master_port world_size device_ids model'
                           extend_vocab embedding_sources_mapping)
                    num_procs) (\<lambda>_.
            bind (call_unit ext (Call_archive_model serialization_dir')) (\<lambda>_.
            bind (call (Call_Model_load params_v serialization_dir')
                       (Model_load ext params_v serialization_dir')) (\<lambda>loaded.
            ret (Some loaded)))))"
  proof (rule train_model_distributed[OF create to_file])
    show "map_of params ''distributed'' = Some (PDict d)" using a by blast
    show "device_ids = (case map_of d ''cuda_devices'' of None \<Rightarrow> PNone | Some v \<Rightarrow> v)"
      using a by blast
    show "num_nodes = (case map_of d ''num_nodes'' of None \<Rightarrow> PInt 1 | Some v \<Rightarrow> v)"
      using a by blast
    show "is_list_longer_than_1 device_ids \<or> py_gt num_nodes 1 = Inr True" using a by blast
    show "raises ext (Call_check_for_gpu device_ids) = None" using a by blast
    show "master_addr =
            (case map_of d ''master_address'' of None \<Rightarrow> PStr ''127.0.0.1'' | Some v \<Rightarrow> v)"
      using a by blast
    show "master_port = (case map_of d ''master_port'' of None \<Rightarrow> PInt 29500 | Some v \<Rightarrow> v)"
      using a by blast
    show "py_len device_ids = Inr num_procs" using a by blast
    show "py_mul num_nodes num_procs = Inr world_size" using a by blast
    show "make_vocab_from_params ext (AList.delete ''distributed'' params) serialization_dir' =
            Inr vocab'"
      using a by blast
    show "params_v = AList.update ''vocabulary''
               (PDict [(''type'', PStr ''from_files''),
                       (''directory'', PStr (os_path_join serialization_dir' ''vocabulary'')),
                       (''padding_token'', PStr (padding_token vocab')),
                       (''oov_token'', PStr (oov_token vocab'))])
               (AList.delete ''distributed'' params)"
      using a by blast
  qed
  have sp: "mp_spawn ext
              (\<lambda>i. train_worker (wext i) (int i) params_v serialization_dir'
                     file_friendly_logging recover include_package batch_weight_key'
                     node_rank master_addr master_port world_size device_ids model'
                     extend_vocab embedding_sources_mapping) num_procs =
            (Call_mp_spawn num_procs #
             concat (map (\<lambda>i. map (InWorker i)
                     (fst (train_worker (wext i) (int i) params_v serialization_dir'
                             file_friendly_logging recover include_package batch_weight_key'
                             node_rank master_addr master_port world_size device_ids model'
                             extend_vocab embedding_sources_mapping)))
                   [0..<num_procs]), Inr ())"
  proof (rule prod_eqI)
    show "fst (mp_spawn ext
              (\<lambda>i. train_worker (wext i) (int i) params_v serialization_dir'
                     file_friendly_logging recover include_package batch_weight_key'
                     node_rank master_addr master_port world_size device_ids model'
                     extend_vocab embedding_sources_mapping) num_procs) =
          fst (Call_mp_spawn num_procs #
               concat (map (\<lambda>i. map (InWorker i)
                     (fst (train_worker (wext i) (int i) params_v serialization_dir'
                             file_friendly_logging recover include_package batch_weight_key'
                             node_rank master_addr master_port world_size device_ids model'
                             extend_vocab embedding_sources_mapping)))
                   [0..<num_procs]), Inr () :: error + unit)"
      by (simp add: fst_mp_spawn)
    have j: "mp_spawn_join ext
                (map (\<lambda>i. snd (train_worker (wext i) (int i) params_v serialization_dir'
                                 file_friendly_logging recover include_package
                                 batch_weight_key' node_rank master_addr master_port
                                 world_size device_ids model' extend_vocab
                                 embedding_sources_mapping))
                   [0..<num_procs]) = None"
      using a by blast
    show "snd (mp_spawn ext
              (\<lambda>i. train_worker (wext i) (int i) params_v serialization_dir'
                     file_friendly_logging recover include_package batch_weight_key'
                     node_rank master_addr master_port world_size device_ids model'
                     extend_vocab embedding_sources_mapping) num_procs) =
          snd (Call_mp_spawn num_procs #
               concat (map (\<lambda>i. map (InWorker i)
                     (fst (train_worker (wext i) (int i) params_v serialization_dir'
                             file_friendly_logging recover include_package batch_weight_key'
                             node_rank master_addr master_port world_size device_ids model'
                             extend_vocab embedding_sources_mapping)))
                   [0..<num_procs]), Inr () :: error + unit)"
      by (simp add: snd_mp_spawn j)
  qed
  show "train_model ext wext params serialization_dir' file_friendly_logging recover force
            node_rank include_package batch_weight_key' model' extend_vocab
            embedding_sources_mapping =
          ([Call_create_serialization_dir params serialization_dir' recover force,
            Call_Params_to_file params (os_path_join serialization_dir' (CONFIG_NAME ext)),
            Call_check_for_gpu device_ids,
            Call_make_vocab_from_params (AList.delete ''distributed'' params) serialization_dir',
            Call_mp_spawn num_procs] @
           concat (map (\<lambda>i. map (InWorker i)
                     (fst (train_worker (wext i) (int i) params_v serialization_dir'
                             file_friendly_logging recover include_package batch_weight_key'
                             node_rank master_addr master_port world_size device_ids model'
                             extend_vocab embedding_sources_mapping)))
                   [0..<num_procs]) @
           [Call_archive_model serialization_dir',
            Call_Model_load params_v serialization_dir'],
           Inr (Some loaded))"
  proof -
    have l: "Model_load ext params_v serialization_dir' = Inr loaded" using a by blast
    show ?thesis
      unfolding t sp using archive
      by (simp add: bind_pair_Inr bind_call_unit_None bind_call_Inr ret_def l)
  qed
qed

lemma demo_spawn_join: "mp_spawn_join demo_externals [Inr x, Inr y] = None"
  by (simp add: demo_externals_def)

theorem train_model_single_or_spawned_witness:
  "train_model demo_externals (\<lambda>i. demo_externals) [(''trainer'', PDict [])] ''out''
     False False False 0 None [] None False None =
   ([Call_create_serialization_dir [(''trainer'', PDict [])] ''out'' False False,
     Call_Params_to_file [(''trainer'', PDict [])] ''out/config.json'',
     Call_prepare_global_logging ''out'' False 0 (PInt 1),
     Call_prepare_environment [(''trainer'', PDict [])],
     Call_TrainModel_from_params [(''trainer'', PDict [])] ''out'' 0 []] @
    demo_construction @
    [Call_trainer_train demo_trainer,
     Call_dump_metrics ''out/metrics.json'' [(''best_epoch'', PInt 0)],
     Call_archive_model ''out''],
    Inr (Some demo_model))
   \<and> train_model demo_externals (\<lambda>i. demo_externals) demo_distributed_params ''out''
     False False False 0 None [] None False None =
   ([Call_create_serialization_dir demo_distributed_params ''out'' False False,
     Call_Params_to_file demo_distributed_params ''out/config.json'',
     Call_check_for_gpu (PList [PInt 0, PInt 1]),
     Call_make_vocab_from_params [(''trainer'', PDict [])] ''out'',
     Call_mp_spawn 2] @
    map (InWorker 0) (demo_worker_calls 0) @
    map (InWorker 1) (demo_worker_calls 1) @
    [Call_archive_model ''out'',
     Call_Model_load demo_worker_params ''out''],
    Inr (Some \<lparr>model_id = 1, vocab = demo_vocabulary\<rparr>))"
proof -
  have w: "train_worker demo_externals (int i) demo_worker_params ''out'' False False None [] 0
     (PStr ''127.0.0.1'') (PInt 29500) (PInt 2) (PList [PInt 0, PInt 1]) None False None =
     (demo_worker_calls i, Inr None)" if "i < 2" for i
    using that by (rule demo_worker_distributed)
  have w0: "train_worker demo_externals 0 demo_worker_params ''out'' False False None [] 0
     (PStr ''127.0.0.1'') (PInt 29500) (PInt 2) (PList [PInt 0, PInt 1]) None False None =
     (demo_worker_calls 0, Inr None)"
    using w[of 0] by simp
  have w1: "train_worker demo_externals 1 demo_worker_params ''out'' False False None [] 0
     (PStr ''127.0.0.1'') (PInt 29500) (PInt 2) (PList [PInt 0, PInt 1]) None False None =
     (demo_worker_calls 1, Inr None)"
    using w[of 1] by simp
  have upt2: "[0..<2] = [0, 1]" by (simp add: upt_rec)
  note single = train_model_single_or_spawned[where ext = demo_externals
      and wext = "\<lambda>i. demo_externals" and params = "[(''trainer'', PDict [])]"
      and serialization_dir' = "''out''" and recover = False and force = False
      and file_friendly_logging = False and node_rank = 0 and include_package = None
      and batch_weight_key' = "[]" and model' = None and extend_vocab = False
      and embedding_sources_mapping = None
      and worker_calls = "[Call_prepare_global_logging ''out'' False 0 (PInt 1),
            Call_prepare_environment [(''trainer'', PDict [])],
            Call_TrainModel_from_params [(''trainer'', PDict [])] ''out'' 0 []] @
           demo_construction @
           [Call_trainer_train demo_trainer,
            Call_dump_metrics ''out/metrics.json'' [(''best_epoch'', PInt 0)]]"
      and trained = "Some demo_model", THEN conjunct1, THEN mp, THEN conjunct1]
  note spawned = train_model_single_or_spawned[where ext = demo_externals
      and wext = "\<lambda>i. demo_externals" and params = demo_distributed_params
      and serialization_dir' = "''out''" and recover = False and force = False
      and file_friendly_logging = False and node_rank = 0 and include_package = None
      and batch_weight_key' = "[]" and model' = None and extend_vocab = False
      and embedding_sources_mapping = None
      and d = "[(''cuda_devices'', PList [PInt 0, PInt 1])]"
      and device_ids = "PList [PInt 0, PInt 1]" and num_nodes = "PInt 1"
      and master_addr = "PStr ''127.0.0.1''" and master_port = "PInt 29500"
      and num_procs = 2 and world_size = "PInt 2" and vocab' = demo_vocabulary
      and params_v = demo_worker_params
      and loaded = "\<lparr>model_id = 1, vocab = demo_vocabulary\<rparr>",
      THEN conjunct2, THEN mp]
  have a: "train_model demo_externals (\<lambda>i. demo_externals) [(''trainer'', PDict [])] ''out''
     False False False 0 None [] None False None =
   ([Call_create_serialization_dir [(''trainer'', PDict [])] ''out'' False False,
     Call_Params_to_file [(''trainer'', PDict [])]
       (os_path_join ''out'' (CONFIG_NAME demo_externals))] @
    ([Call_prepare_global_logging ''out'' False 0 (PInt 1),
      Call_prepare_environment [(''trainer'', PDict [])],
      Call_TrainModel_from_params [(''trainer'', PDict [])] ''out'' 0 []] @
     demo_construction @
     [Call_trainer_train demo_trainer,
      Call_dump_metrics ''out/metrics.json'' [(''best_epoch'', PInt 0)]]) @
    [Call_archive_model ''out''],
    Inr (Some demo_model))"
    by (rule single) (simp_all add: demo_fields demo_worker_single)
  have b: "train_model demo_externals (\<lambda>i. demo_externals) demo_distributed_params ''out''
     False False False 0 None [] None False None =
   ([Call_create_serialization_dir demo_distributed_params ''out'' False False,
     Call_Params_to_file demo_distributed_params
       (os_path_join ''out'' (CONFIG_NAME demo_externals)),
     Call_check_for_gpu (PList [PInt 0, PInt 1]),
     Call_make_vocab_from_params (AList.delete ''distributed'' demo_distributed_params) ''out'',
     Call_mp_spawn 2] @
    concat (map (\<lambda>i. map (InWorker i)
              (fst (train_worker demo_externals (int i) demo_worker_params ''out''
                      False False None [] 0 (PStr ''127.0.0.1'') (PInt 29500) (PInt 2)
                      (PList [PInt 0, PInt 1]) None False None)))
            [0..<2]) @
    [Call_archive_model ''out'',
     Call_Model_load demo_worker_params ''out''],
    Inr (Some \<lparr>model_id = 1, vocab = demo_vocabulary\<rparr>))"
    by (rule spawned)
       (simp_all add: demo_fields demo_distributed_params_def demo_worker_params_def
          demo_vocabulary_def os_path_join_def upt2 w0[unfolded demo_worker_params_def]
          w1[unfolded demo_worker_params_def] demo_spawn_join)
  show ?thesis
    unfolding a b
    by (simp add: demo_fields os_path_join_def upt2 w0 w1 demo_distributed_params_def)
qed

text \<open>
  C4 as stated ("otherwise", that is whenever the params contain a \<open>"distributed"\<close>
  key, it spawns workers) fails for a key whose value is \<open>null\<close>: the single worker
  runs in the process itself and \<open>mp.spawn\<close> is not called.
\<close>

theorem distributed_null_single_process_counterexample:
  "map_of [(''distributed'', PNone), (''trainer'', PDict [])] ''distributed'' = Some PNone
   \<and> train_model demo_externals (\<lambda>i. demo_externals)
       [(''distributed'', PNone), (''trainer'', PDict [])]
       ''out'' False False False 0 None [] None False None =
     ([Call_create_serialization_dir [(''distributed'', PNone), (''trainer'', PDict [])]
         ''out'' False False,
       Call_Params_to_file [(''distributed'', PNone), (''trainer'', PDict [])]
         ''out/config.json'',
       Call_prepare_global_logging ''out'' False 0 (PInt 1),
       Call_prepare_environment [(''trainer'', PDict [])],
       Call_TrainModel_from_params [(''trainer'', PDict [])] ''out'' 0 []] @
      demo_construction @
      [Call_trainer_train demo_trainer,
       Call_dump_metrics ''out/metrics.json'' [(''best_epoch'', PInt 0)],
       Call_archive_model ''out''],
      Inr (Some demo_model))"
  by (simp add: demo_train_model_null)

subsection \<open>Rank, world size and device of a spawned worker\<close>

lemma fst_import_packages:
  "\<forall>p \<in> set packages. raises ext (Call_import_submodules p) = None \<Longrightarrow>
   fst (import_packages ext packages) = map Call_import_submodules packages"
  by (simp add: import_packages_ok)






end
